theory Spec2Isabelle
  imports Main "HOL-Library.Char_ord" "HOL-Library.List_Lexorder"
begin

section \<open>Python values used by the registration handler\<close>

text \<open>
  The development embeds \<^verbatim>\<open>registroJovenLambda\<close> (the dual-folio variant of the
  youth registration handler). A Python \<^verbatim>\<open>str\<close> is a sequence of code points; the
  embedding represents it as a \<^typ>\<open>string\<close> whose characters are the code points
  U+0000 to U+00FF, one \<^typ>\<open>char\<close> each. Code points above U+00FF are outside the
  embedding.
\<close>

datatype py_exn =
    ValueError string
  | TypeError
  | AttributeError
  | MySQLError int
  | JSONDecodeError
  | ClientError
  | OtherError

subsection \<open>Character classes\<close>

definition is_decimal :: "char \<Rightarrow> bool" where
  \<comment> \<open>the characters \<^verbatim>\<open>0\<close> to \<^verbatim>\<open>9\<close>, the only ones \<^verbatim>\<open>int()\<close> reads as digits below U+0100\<close>
  "is_decimal c = (CHR ''0'' \<le> c \<and> c \<le> CHR ''9'')"

definition is_superscript_digit :: "char \<Rightarrow> bool" where
  \<comment> \<open>U+00B2, U+00B3 and U+00B9: Numeric_Type=Digit, but no decimal value\<close>
  "is_superscript_digit c = (c = CHR 0xB2 \<or> c = CHR 0xB3 \<or> c = CHR 0xB9)"

definition isdigit_char :: "char \<Rightarrow> bool" where
  \<comment> \<open>\<^verbatim>\<open>str.isdigit\<close> on one character: Numeric_Type Decimal or Digit\<close>
  "isdigit_char c = (is_decimal c \<or> is_superscript_digit c)"

definition isdigit :: "string \<Rightarrow> bool" where
  \<comment> \<open>\<^verbatim>\<open>s.isdigit()\<close>: every character is a digit and there is at least one\<close>
  "isdigit s = (s \<noteq> [] \<and> list_all isdigit_char s)"

definition is_int_space :: "char \<Rightarrow> bool" where
  \<comment> \<open>what \<^verbatim>\<open>int()\<close> skips around a literal: tab, LF, VT, FF, CR, space, and U+0085,
      U+00A0 (which it first turns into spaces)\<close>
  "is_int_space c = (c \<in> {CHR 0x09, CHR 0x0A, CHR 0x0B, CHR 0x0C, CHR 0x0D, CHR '' '',
                          CHR 0x85, CHR 0xA0})"

definition digit_val :: "char \<Rightarrow> int" where
  "digit_val c = int (of_char c) - 48"

definition digit_char :: "nat \<Rightarrow> char" where
  \<comment> \<open>the character of a digit below ten\<close>
  "digit_char d = ''0123456789'' ! d"

subsection \<open>\<^verbatim>\<open>str(n)\<close>, \<^verbatim>\<open>int(s)\<close>, \<^verbatim>\<open>zfill\<close>, \<^verbatim>\<open>replace\<close> and slices\<close>

fun str_nat :: "nat \<Rightarrow> string" where
  "str_nat n = (if n < 10 then [digit_char n] else str_nat (n div 10) @ [digit_char (n mod 10)])"

declare str_nat.simps [simp del]

definition str_int :: "int \<Rightarrow> string" where
  \<comment> \<open>\<^verbatim>\<open>str(n)\<close> for an int\<close>
  "str_int n = (if n < 0 then CHR ''-'' # str_nat (nat (- n)) else str_nat (nat n))"

fun int_digits :: "int \<Rightarrow> string \<Rightarrow> (int \<times> string) option" where
  \<comment> \<open>the digits of a literal after the first, a single underscore allowed between two
      digits; returns the value read and the rest, or None on a misplaced underscore\<close>
  "int_digits acc [] = Some (acc, [])"
| "int_digits acc (c # cs) =
     (if is_decimal c then int_digits (acc * 10 + digit_val c) cs
      else if c = CHR ''_'' then
        (case cs of
           [] \<Rightarrow> None
         | d # ds \<Rightarrow> if is_decimal d then int_digits (acc * 10 + digit_val d) ds else None)
      else Some (acc, c # cs))"

definition dec_value :: "int \<Rightarrow> string \<Rightarrow> int" where
  \<comment> \<open>the number a string of decimal digits denotes, continuing from \<open>acc\<close>\<close>
  "dec_value acc s = foldl (\<lambda>a c. a * 10 + digit_val c) acc s"

definition int_literal_error :: py_exn where
  "int_literal_error = ValueError ''invalid literal for int() with base 10''"

definition py_int :: "string \<Rightarrow> py_exn + int" where
  \<comment> \<open>\<^verbatim>\<open>int(s)\<close> for a str: surrounding whitespace, an optional sign, decimal digits\<close>
  "py_int s =
     (let s1 = dropWhile is_int_space s;
          (sign, s2) = (case s1 of
                          c # r \<Rightarrow> if c = CHR ''-'' then (- 1, r)
                                   else if c = CHR ''+'' then (1, r) else (1, s1)
                        | [] \<Rightarrow> (1, s1))
      in case s2 of
           [] \<Rightarrow> Inl int_literal_error
         | c # r \<Rightarrow>
             if \<not> is_decimal c then Inl int_literal_error
             else (case int_digits (digit_val c) r of
                     None \<Rightarrow> Inl int_literal_error
                   | Some (v, rest) \<Rightarrow>
                       if dropWhile is_int_space rest = [] then Inr (sign * v)
                       else Inl int_literal_error))"

definition zfill :: "nat \<Rightarrow> string \<Rightarrow> string" where
  \<comment> \<open>\<^verbatim>\<open>s.zfill(w)\<close>: zeros go after a leading sign\<close>
  "zfill w s =
     (if w \<le> length s then s
      else (case s of
              c # r \<Rightarrow> if c = CHR ''+'' \<or> c = CHR ''-''
                       then c # replicate (w - length s) CHR ''0'' @ r
                       else replicate (w - length s) CHR ''0'' @ s
            | [] \<Rightarrow> replicate w CHR ''0''))"

definition remove_char :: "char \<Rightarrow> string \<Rightarrow> string" where
  \<comment> \<open>\<^verbatim>\<open>s.replace(c, '')\<close> for a one-character \<^verbatim>\<open>c\<close>\<close>
  "remove_char c s = filter (\<lambda>x. x \<noteq> c) s"

definition last_four :: "string \<Rightarrow> string" where
  \<comment> \<open>\<^verbatim>\<open>s[-4:]\<close>: the whole string when it is shorter than four\<close>
  "last_four s = drop (length s - 4) s"

definition startswith :: "string \<Rightarrow> string \<Rightarrow> bool" where
  "startswith s p = (take (length p) s = p)"

section \<open>ChecksumEngine: \<^verbatim>\<open>calculate_luhn\<close>\<close>

fun luhn_digits :: "string \<Rightarrow> py_exn + int list" where
  \<comment> \<open>\<^verbatim>\<open>[int(d) for d in s if d.isdigit()]\<close>; the first failing \<^verbatim>\<open>int(d)\<close> raises\<close>
  "luhn_digits [] = Inr []"
| "luhn_digits (d # s) =
     (if isdigit [d] then
        (case py_int [d] of
           Inl e \<Rightarrow> Inl e
         | Inr v \<Rightarrow> (case luhn_digits s of Inl e \<Rightarrow> Inl e | Inr vs \<Rightarrow> Inr (v # vs)))
      else luhn_digits s)"

fun luhn_loop :: "nat \<Rightarrow> int list \<Rightarrow> int \<Rightarrow> int" where
  \<comment> \<open>the \<^verbatim>\<open>for i, d in enumerate(...)\<close> loop, from index \<^verbatim>\<open>i\<close> with running checksum\<close>
  "luhn_loop i [] checksum = checksum"
| "luhn_loop i (d # ds) checksum =
     (let n = (if i mod 2 = 0 then d * 2 else d)
      in luhn_loop (i + 1) ds (checksum + (if n < 10 then n else n - 9)))"

definition calculate_luhn :: "string \<Rightarrow> py_exn + int" where
  "calculate_luhn s =
     (case luhn_digits s of
        Inl e \<Rightarrow> Inl e
      | Inr digits \<Rightarrow>
          (let checksum = luhn_loop 0 (rev digits) 0
           in Inr ((10 - (checksum mod 10)) mod 10)))"


text \<open>
  The algorithm as the specification words it, over the list of digit values: positions
  are counted from the least significant digit, a digit at an even position is doubled
  and reduced by 9 when the doubled value exceeds 9, everything is summed, and the check
  digit is \<open>(10 - (sum mod 10)) mod 10\<close>.
\<close>

definition spec_luhn_term :: "nat \<Rightarrow> int \<Rightarrow> int" where
  "spec_luhn_term i d = (if even i then (if d * 2 > 9 then d * 2 - 9 else d * 2) else d)"

definition spec_check_digit :: "int list \<Rightarrow> int" where
  "spec_check_digit ds =
     (10 - ((\<Sum>i < length ds. spec_luhn_term i (rev ds ! i)) mod 10)) mod 10"

definition decimal_values :: "string \<Rightarrow> int list" where
  \<comment> \<open>the values of the decimal digits of a payload, other characters ignored\<close>
  "decimal_values s = map digit_val (filter is_decimal s)"

section \<open>FolioAllocator\<close>

subsection \<open>\<^verbatim>\<open>generate_new_folio\<close>\<close>

text \<open>
  \<^verbatim>\<open>datetime.datetime.utcnow()\<close> is an input: the pair of the year and the month of
  the current UTC date.
\<close>

definition generate_new_folio :: "int \<times> int \<Rightarrow> int \<Rightarrow> py_exn + string" where
  "generate_new_folio now user_id =
     (let year = fst now;
          month = zfill 2 (str_int (snd now));
          seq = zfill 6 (str_int user_id);
          base = ''BJ'' @ str_int year @ month @ seq
      in case calculate_luhn base of
           Inl e \<Rightarrow> Inl e
         | Inr check_digit \<Rightarrow>
             Inr (''BJ-'' @ str_int year @ ''-'' @ month @ ''-'' @ seq @ ''-''
                  @ str_int check_digit))"

fun split_dash :: "string \<Rightarrow> string list" where
  \<comment> \<open>\<^verbatim>\<open>s.split('-')\<close>, used to name the segments of a digital folio\<close>
  "split_dash [] = [[]]"
| "split_dash (c # cs) =
     (if c = CHR ''-'' then [] # split_dash cs
      else (case split_dash cs of seg # segs \<Rightarrow> (c # seg) # segs | [] \<Rightarrow> [[c]]))"

subsection \<open>\<^verbatim>\<open>validate_legacy_folio\<close>\<close>

definition LEGACY_PREFIX :: string where
  "LEGACY_PREFIX = ''123456789012''"

definition msg_16_digitos :: string where
  "msg_16_digitos = ''Folio debe tener 16 d'' @ [CHR 0xED] @ ''gitos''"

definition msg_solo_numeros :: string where
  "msg_solo_numeros = ''Folio debe contener solo n'' @ [CHR 0xFA] @ ''meros''"

definition msg_formato :: string where
  "msg_formato = ''Formato de folio inv'' @ [CHR 0xE1] @ ''lido''"

definition msg_fuera_de_rango :: string where
  "msg_fuera_de_rango =
     ''N'' @ [CHR 0xFA] @ ''mero de folio fuera de rango v'' @ [CHR 0xE1] @ ''lido''"

definition msg_valido :: string where
  "msg_valido = ''V'' @ [CHR 0xE1] @ ''lido''"

definition normalize_folio :: "string \<Rightarrow> string" where
  \<comment> \<open>\<^verbatim>\<open>folio.replace(' ', '').replace('-', '')\<close>\<close>
  "normalize_folio folio = remove_char CHR ''-'' (remove_char CHR '' '' folio)"

definition validate_legacy_folio :: "string \<Rightarrow> py_exn + (bool \<times> string)" where
  "validate_legacy_folio folio0 =
     (let folio = normalize_folio folio0
      in if length folio \<noteq> 16 then Inr (False, msg_16_digitos)
         else if \<not> isdigit folio then Inr (False, msg_solo_numeros)
         else if \<not> startswith folio LEGACY_PREFIX then Inr (False, msg_formato)
         else (case py_int (last_four folio) of
                 Inl e \<Rightarrow> Inl e
               | Inr last_four_n \<Rightarrow>
                   if last_four_n < 1 \<or> last_four_n > 9999 then Inr (False, msg_fuera_de_rango)
                   else Inr (True, msg_valido)))"

text \<open>
  The four rules as the specification words them, first failing rule first, over the
  normalized string; a digit is one of \<^verbatim>\<open>0\<close> to \<^verbatim>\<open>9\<close>.
\<close>

definition spec_tail_value :: "string \<Rightarrow> int" where
  "spec_tail_value s = foldl (\<lambda>acc c. acc * 10 + digit_val c) 0 (last_four s)"

definition spec_validate :: "string \<Rightarrow> bool \<times> string" where
  "spec_validate folio0 =
     (let s = normalize_folio folio0
      in if length s \<noteq> 16 then (False, msg_16_digitos)
         else if \<not> list_all is_decimal s then (False, msg_solo_numeros)
         else if take 12 s \<noteq> LEGACY_PREFIX then (False, msg_formato)
         else if \<not> (1 \<le> spec_tail_value s \<and> spec_tail_value s \<le> 9999)
           then (False, msg_fuera_de_rango)
         else (True, msg_valido))"


section \<open>The store and the collaborators\<close>

text \<open>
  A request body is the value \<^verbatim>\<open>json.loads\<close> returns. JSON numbers with a fraction are
  not represented; an object is an association list in which the first binding of a key
  is the one the dict holds.
\<close>

datatype json =
    JNull
  | JBool bool
  | JInt int
  | JStr string
  | JArr "json list"
  | JObj "(string \<times> json) list"

type_synonym dict = "(string \<times> json) list"

definition dict_get :: "dict \<Rightarrow> string \<Rightarrow> json" where
  \<comment> \<open>\<^verbatim>\<open>d.get(k)\<close>, Python's None written \<^const>\<open>JNull\<close>\<close>
  "dict_get d k = (case map_of d k of Some v \<Rightarrow> v | None \<Rightarrow> JNull)"

fun truthy :: "json \<Rightarrow> bool" where
  "truthy JNull = False"
| "truthy (JBool b) = b"
| "truthy (JInt n) = (n \<noteq> 0)"
| "truthy (JStr s) = (s \<noteq> [])"
| "truthy (JArr xs) = (xs \<noteq> [])"
| "truthy (JObj kvs) = (kvs \<noteq> [])"

text \<open>The rows of the tables \<^verbatim>\<open>Joven\<close> and \<^verbatim>\<open>Tarjeta\<close>, with the columns the handler writes.\<close>

record joven_row =
  id_usuario :: int
  nombre :: json
  apellido_paterno :: json
  apellido_materno :: json
  curp :: string
  curp_hash :: string
  fecha_nacimiento :: json
  telefono :: "string option"
  foto :: string
  genero :: json
  contrasena :: string
  correo :: json
  calle :: json
  colonia :: json
  codigo_postal :: json
  municipio :: json
  numero_ext :: json
  numero_int :: json

record tarjeta_row =
  tarjeta_id_usuario :: int
  folio :: string
  folio_legacy :: "string option"
  tipo :: string
  estado :: string

text \<open>
  The world a request runs in: the committed rows of the two tables (what every other
  reader of the store observes), the rows written on the cached connection and not yet
  committed, the next auto-increment identifier of \<^verbatim>\<open>Joven\<close>, the plaintexts sent to
  the encryption service so far, and the objects put into the blob store.
\<close>

record world =
  joven :: "joven_row list"
  tarjeta :: "tarjeta_row list"
  joven_uncommitted :: "joven_row list"
  tarjeta_uncommitted :: "tarjeta_row list"
  joven_auto_increment :: int
  kms_log :: "string list"
  s3_objects :: "(string \<times> string) list"

datatype db_call =
    SelectCorreo
  | SelectCurpHash
  | SelectFolioLegacy
  | SelectMaxFolioLegacy
  | InsertJoven
  | CommitJoven
  | InsertTarjeta
  | CommitTarjeta

text \<open>
  What the collaborators answer during one request is an input: the password hash, the
  SHA-256 digest, whether the connection can be obtained, the error code with which a
  store call raises \<^verbatim>\<open>pymysql.MySQLError\<close> (if it does), the ciphertext or the
  exception of the encryption service, the result of \<^verbatim>\<open>base64.b64decode\<close>, the
  exception of \<^verbatim>\<open>put_object\<close> (if any), and the UTC clock.
\<close>

record env =
  bcrypt_hashpw :: "string \<Rightarrow> py_exn + string"
  sha256_hexdigest :: "string \<Rightarrow> string"
  connect_error :: "py_exn option"
  db_error :: "db_call \<Rightarrow> int option"
  kms_encrypt :: "string \<Rightarrow> py_exn + string"
  b64decode :: "string \<Rightarrow> string option"
  s3_put_object :: "string \<Rightarrow> py_exn option"
  utc_year :: int
  utc_month :: int
  utc_timestamp :: int

definition visible_joven :: "world \<Rightarrow> joven_row list" where
  \<comment> \<open>the rows a SELECT on the handler's connection sees\<close>
  "visible_joven w = joven w @ joven_uncommitted w"

definition visible_tarjeta :: "world \<Rightarrow> tarjeta_row list" where
  "visible_tarjeta w = tarjeta w @ tarjeta_uncommitted w"

definition commit :: "world \<Rightarrow> world" where
  \<comment> \<open>\<^verbatim>\<open>conn.commit()\<close>: everything written on the connection becomes observable\<close>
  "commit w = w\<lparr>joven := joven w @ joven_uncommitted w,
               tarjeta := tarjeta w @ tarjeta_uncommitted w,
               joven_uncommitted := [],
               tarjeta_uncommitted := []\<rparr>"

definition sql_eq :: "json \<Rightarrow> json \<Rightarrow> bool" where
  \<comment> \<open>\<^verbatim>\<open>column = %s\<close>: a NULL parameter matches nothing\<close>
  "sql_eq column param = (param \<noteq> JNull \<and> column = param)"

subsection \<open>\<^verbatim>\<open>get_next_legacy_folio\<close>\<close>

text \<open>
  The query keeps the non-NULL \<^verbatim>\<open>folio_legacy\<close> values that match
  \<^verbatim>\<open>LIKE '123456789012%'\<close> and returns the first in descending order; the order of
  the column is taken to be the lexicographic order of the code points.
\<close>

definition legacy_candidates :: "tarjeta_row list \<Rightarrow> string list" where
  "legacy_candidates rows =
     filter (\<lambda>f. startswith f LEGACY_PREFIX) (List.map_filter folio_legacy rows)"

definition select_max_folio_legacy :: "tarjeta_row list \<Rightarrow> string option" where
  "select_max_folio_legacy rows =
     (case legacy_candidates rows of [] \<Rightarrow> None | f # fs \<Rightarrow> Some (fold max fs f))"

definition exhausted_error :: py_exn where
  "exhausted_error = ValueError ''Legacy folio sequence exhausted (max 9999)''"

definition get_next_legacy_folio :: "env \<Rightarrow> world \<Rightarrow> py_exn + string" where
  "get_next_legacy_folio e w =
     (case db_error e SelectMaxFolioLegacy of
        Some code \<Rightarrow> Inl (MySQLError code)
      | None \<Rightarrow>
          (case select_max_folio_legacy (visible_tarjeta w) of
             Some last_folio \<Rightarrow>
               (case py_int (last_four last_folio) of
                  Inl err \<Rightarrow> Inl err
                | Inr last_number \<Rightarrow>
                    (let next_number = last_number + 1
                     in if next_number > 9999 then Inl exhausted_error
                        else Inr (''123456789012'' @ zfill 4 (str_int next_number))))
           | None \<Rightarrow> Inr ''1234567890120001''))"

definition stored_prefix_folios :: "world \<Rightarrow> string set" where
  \<comment> \<open>the legacy folios the store holds under the fixed prefix\<close>
  "stored_prefix_folios w =
     {f. \<exists>r \<in> set (visible_tarjeta w). folio_legacy r = Some f \<and> take 12 f = LEGACY_PREFIX}"

subsection \<open>\<^verbatim>\<open>encrypt_data\<close> and \<^verbatim>\<open>upload_photo_to_s3\<close>\<close>

definition encrypt_data :: "env \<Rightarrow> json \<Rightarrow> world \<Rightarrow> (py_exn + string) \<times> world" where
  \<comment> \<open>\<^verbatim>\<open>bytes(data, 'utf-8')\<close> raises TypeError on anything but a str, before the call\<close>
  "encrypt_data e data w =
     (case data of
        JStr s \<Rightarrow> (kms_encrypt e s, w\<lparr>kms_log := kms_log w @ [s]\<rparr>)
      | _ \<Rightarrow> (Inl TypeError, w))"

definition upload_photo_to_s3 :: "env \<Rightarrow> json \<Rightarrow> string \<Rightarrow> world \<Rightarrow> string option \<times> world" where
  \<comment> \<open>every exception inside is caught and turned into None\<close>
  "upload_photo_to_s3 e photo_base64 curp_text w =
     (case photo_base64 of
        JStr p \<Rightarrow>
          (case b64decode e p of
             None \<Rightarrow> (None, w)
           | Some image_data \<Rightarrow>
               (let file_key = ''fotos_jovenes/'' @ curp_text @ ''_''
                               @ str_int (utc_timestamp e) @ ''.jpg''
                in case s3_put_object e file_key of
                     Some err \<Rightarrow> (None, w)
                   | None \<Rightarrow>
                       (Some file_key,
                        w\<lparr>s3_objects := s3_objects w @ [(file_key, image_data)]\<rparr>)))
      | _ \<Rightarrow> (None, w))"


section \<open>RegistrationOrchestrator: \<^verbatim>\<open>lambda_handler\<close>\<close>

record event =
  httpMethod :: "string option"
  body :: "dict option"

text \<open>
  An event carries the HTTP method the handler reads and the parsed body: None when
  \<^verbatim>\<open>json.loads\<close> raises, the empty object when the event has no body; a body that
  parses to anything but an object is outside the embedding. A response is
  the status code and the dict given to \<^verbatim>\<open>json.dumps\<close>: its message, its other
  entries, and the exception whose text goes under the key \<^verbatim>\<open>error\<close>.
\<close>

record response =
  statusCode :: int
  message :: string
  payload :: dict
  error :: "py_exn option"

datatype 'a outcome =
    Continue 'a
  | Return response
  | Raise py_exn

definition bind ::
  "'a outcome \<times> world \<Rightarrow> ('a \<Rightarrow> world \<Rightarrow> 'b outcome \<times> world) \<Rightarrow> 'b outcome \<times> world" where
  \<comment> \<open>statement sequencing inside the try block: a return or a raise ends it, and the
      world reached so far stays as it is\<close>
  "bind m f =
     (case m of
        (Continue x, w) \<Rightarrow> f x w
      | (Return r, w) \<Rightarrow> (Return r, w)
      | (Raise err, w) \<Rightarrow> (Raise err, w))"

definition reply :: "int \<Rightarrow> string \<Rightarrow> response" where
  "reply code msg = \<lparr>statusCode = code, message = msg, payload = [], error = None\<rparr>"

definition required_fields :: "string list" where
  "required_fields =
     [''nombre'', ''apellidoPaterno'', ''curp'', ''correo'', ''password'',
      ''consentimientoAceptado'']"

definition msg_correo_registrado :: string where
  "msg_correo_registrado = ''El correo ya est'' @ [CHR 0xE1] @ '' registrado''"

definition msg_curp_registrado :: string where
  "msg_curp_registrado = ''El CURP ya est'' @ [CHR 0xE1] @ '' registrado''"

definition msg_folio_registrado :: string where
  "msg_folio_registrado = ''Este folio antiguo ya est'' @ [CHR 0xE1] @ '' registrado''"

definition msg_folio_invalido :: string where
  "msg_folio_invalido = ''Folio antiguo inv'' @ [CHR 0xE1] @ ''lido: ''"

definition msg_registrado_con_exito :: string where
  "msg_registrado_con_exito = ''Joven registrado con '' @ [CHR 0xE9] @ ''xito''"

definition msg_correo_o_curp :: string where
  "msg_correo_o_curp = ''El correo o CURP ya est'' @ [CHR 0xE1] @ ''n registrados''"

definition stage_request ::
  "env \<Rightarrow> event \<Rightarrow> world \<Rightarrow> (dict \<times> string \<times> string \<times> string \<times> json) outcome \<times> world" where
  \<comment> \<open>parsing, required fields, consent, password hash, CURP hash; gives the body, the
      hashed password, the CURP, its hash and \<^verbatim>\<open>folio_antiguo\<close>\<close>
  "stage_request e ev w =
     (case body ev of
        None \<Rightarrow> (Raise JSONDecodeError, w)
      | Some b \<Rightarrow>
          (let missing_fields = filter (\<lambda>field. map_of b field = None) required_fields
           in if missing_fields \<noteq> [] then
                (Return \<lparr>statusCode = 400, message = ''Faltan campos requeridos'',
                         payload = [(''missing_fields'', JArr (map JStr missing_fields))],
                         error = None\<rparr>, w)
              else if \<not> truthy (dict_get b ''consentimientoAceptado'') then
                (Return (reply 400
                   ''El consentimiento del aviso de privacidad es obligatorio''), w)
              else (case dict_get b ''password'' of
                      JStr password \<Rightarrow>
                        (case bcrypt_hashpw e password of
                           Inl err \<Rightarrow> (Raise err, w)
                         | Inr hashed_password \<Rightarrow>
                             (case dict_get b ''curp'' of
                                JStr curp_text \<Rightarrow>
                                  (Continue (b, hashed_password, curp_text,
                                             sha256_hexdigest e curp_text,
                                             dict_get b ''folio_antiguo''), w)
                              | _ \<Rightarrow> (Raise AttributeError, w)))
                    | _ \<Rightarrow> (Raise AttributeError, w))))"

definition stage_duplicates :: "env \<Rightarrow> dict \<Rightarrow> string \<Rightarrow> world \<Rightarrow> unit outcome \<times> world" where
  \<comment> \<open>the connection and the two duplicate checks\<close>
  "stage_duplicates e b curp_hash_text w =
     (case connect_error e of
        Some err \<Rightarrow> (Raise err, w)
      | None \<Rightarrow>
          (case db_error e SelectCorreo of
             Some code \<Rightarrow> (Raise (MySQLError code), w)
           | None \<Rightarrow>
               if \<exists>r \<in> set (visible_joven w). sql_eq (correo r) (dict_get b ''correo'') then
                 (Return (reply 409 msg_correo_registrado), w)
               else (case db_error e SelectCurpHash of
                       Some code \<Rightarrow> (Raise (MySQLError code), w)
                     | None \<Rightarrow>
                         if \<exists>r \<in> set (visible_joven w). curp_hash r = curp_hash_text then
                           (Return (reply 409 msg_curp_registrado), w)
                         else (Continue (), w))))"

definition stage_legacy_folio ::
  "env \<Rightarrow> json \<Rightarrow> world \<Rightarrow> (string \<times> string) outcome \<times> world" where
  \<comment> \<open>gives \<^verbatim>\<open>folio_legacy\<close> and \<^verbatim>\<open>tipo_tarjeta\<close>\<close>
  "stage_legacy_folio e folio_antiguo w =
     (if truthy folio_antiguo then
        (case folio_antiguo of
           JStr f \<Rightarrow>
             (case validate_legacy_folio f of
                Inl err \<Rightarrow> (Raise err, w)
              | Inr (is_valid, msg) \<Rightarrow>
                  if \<not> is_valid then (Return (reply 400 (msg_folio_invalido @ msg)), w)
                  else (let folio_legacy_text = normalize_folio f
                        in case db_error e SelectFolioLegacy of
                             Some code \<Rightarrow> (Raise (MySQLError code), w)
                           | None \<Rightarrow>
                               if \<exists>r \<in> set (visible_tarjeta w).
                                    folio_legacy r = Some folio_legacy_text
                               then (Return (reply 409 msg_folio_registrado), w)
                               else (Continue (folio_legacy_text, ''mixta''), w)))
         | _ \<Rightarrow> (Raise AttributeError, w))
      else (case get_next_legacy_folio e w of
              Inr f \<Rightarrow> (Continue (f, ''digital''), w)
            | Inl (ValueError m) \<Rightarrow> (Return (reply 500 ''Error generando folio legacy''), w)
            | Inl err \<Rightarrow> (Raise err, w)))"

definition stage_encrypt ::
  "env \<Rightarrow> dict \<Rightarrow> world \<Rightarrow> (string \<times> string option) outcome \<times> world" where
  \<comment> \<open>gives \<^verbatim>\<open>curp_encrypted\<close> and \<^verbatim>\<open>telefono_encrypted\<close>\<close>
  "stage_encrypt e b w =
     (case encrypt_data e (dict_get b ''curp'') w of
        (Inl err, w1) \<Rightarrow> (Raise err, w1)
      | (Inr curp_encrypted, w1) \<Rightarrow>
          if truthy (dict_get b ''celular'') then
            (case encrypt_data e (dict_get b ''celular'') w1 of
               (Inl err, w2) \<Rightarrow> (Raise err, w2)
             | (Inr telefono_encrypted, w2) \<Rightarrow>
                 (Continue (curp_encrypted, Some telefono_encrypted), w2))
          else (Continue (curp_encrypted, None), w1))"

definition stage_photo :: "env \<Rightarrow> dict \<Rightarrow> string \<Rightarrow> world \<Rightarrow> string outcome \<times> world" where
  \<comment> \<open>gives \<^verbatim>\<open>foto_s3_key\<close>\<close>
  "stage_photo e b curp_text w =
     (if truthy (dict_get b ''foto'') then
        (case upload_photo_to_s3 e (dict_get b ''foto'') curp_text w of
           (Some uploaded_key, w1) \<Rightarrow>
             (Continue (if uploaded_key \<noteq> [] then uploaded_key else ''default-avatar.JPG''), w1)
         | (None, w1) \<Rightarrow> (Continue ''default-avatar.JPG'', w1))
      else (Continue ''default-avatar.JPG'', w))"

definition direccion_of :: "dict \<Rightarrow> dict option" where
  \<comment> \<open>\<^verbatim>\<open>body.get('direccion', {})\<close> when \<^verbatim>\<open>.get\<close> can be called on it\<close>
  "direccion_of b =
     (case map_of b ''direccion'' of
        None \<Rightarrow> Some []
      | Some (JObj d) \<Rightarrow> Some d
      | Some _ \<Rightarrow> None)"

definition stage_insert_joven ::
  "env \<Rightarrow> dict \<Rightarrow> string \<Rightarrow> string \<Rightarrow> string \<Rightarrow> string option \<Rightarrow> string \<Rightarrow> world
     \<Rightarrow> int outcome \<times> world" where
  \<comment> \<open>the INSERT into Joven and the first commit; gives \<^verbatim>\<open>user_id\<close>\<close>
  "stage_insert_joven e b hashed_password curp_hash_text curp_encrypted telefono_encrypted
       foto_s3_key w =
     (case direccion_of b of
        None \<Rightarrow> (Raise AttributeError, w)
      | Some d \<Rightarrow>
          (case db_error e InsertJoven of
             Some code \<Rightarrow> (Raise (MySQLError code), w)
           | None \<Rightarrow>
               (let row = \<lparr>id_usuario = joven_auto_increment w,
                           nombre = dict_get b ''nombre'',
                           apellido_paterno = dict_get b ''apellidoPaterno'',
                           apellido_materno = dict_get b ''apellidoMaterno'',
                           curp = curp_encrypted,
                           curp_hash = curp_hash_text,
                           fecha_nacimiento = dict_get b ''fechaNacimiento'',
                           telefono = telefono_encrypted,
                           foto = foto_s3_key,
                           genero = dict_get b ''genero'',
                           contrasena = hashed_password,
                           correo = dict_get b ''correo'',
                           calle = dict_get d ''calle'',
                           colonia = dict_get d ''colonia'',
                           codigo_postal = dict_get d ''codigoPostal'',
                           municipio = dict_get d ''municipio'',
                           numero_ext = dict_get d ''numeroExterior'',
                           numero_int = dict_get d ''numeroInterior''\<rparr>;
                    w1 = w\<lparr>joven_uncommitted := joven_uncommitted w @ [row],
                           joven_auto_increment := joven_auto_increment w + 1\<rparr>
                in case db_error e CommitJoven of
                     Some code \<Rightarrow> (Raise (MySQLError code), w1)
                   | None \<Rightarrow> (Continue (id_usuario row), commit w1))))"

definition stage_tarjeta ::
  "env \<Rightarrow> int \<Rightarrow> string \<Rightarrow> string \<Rightarrow> world \<Rightarrow> response outcome \<times> world" where
  \<comment> \<open>the digital folio, the INSERT into Tarjeta, the second commit, the 201 response\<close>
  "stage_tarjeta e user_id folio_legacy_text tipo_tarjeta w =
     (case generate_new_folio (utc_year e, utc_month e) user_id of
        Inl err \<Rightarrow> (Raise err, w)
      | Inr folio_digital \<Rightarrow>
          (case db_error e InsertTarjeta of
             Some code \<Rightarrow> (Raise (MySQLError code), w)
           | None \<Rightarrow>
               (let row = \<lparr>tarjeta_id_usuario = user_id, folio = folio_digital,
                           folio_legacy = Some folio_legacy_text, tipo = tipo_tarjeta,
                           estado = ''activa''\<rparr>;
                    w1 = w\<lparr>tarjeta_uncommitted := tarjeta_uncommitted w @ [row]\<rparr>
                in case db_error e CommitTarjeta of
                     Some code \<Rightarrow> (Raise (MySQLError code), w1)
                   | None \<Rightarrow>
                       (Continue \<lparr>statusCode = 201, message = msg_registrado_con_exito,
                                  payload = [(''id'', JInt user_id),
                                            (''folio_digital'', JStr folio_digital),
                                            (''folio_legacy'', JStr folio_legacy_text),
                                            (''tipo'', JStr tipo_tarjeta)],
                                  error = None\<rparr>, commit w1))))"

definition try_block :: "env \<Rightarrow> event \<Rightarrow> world \<Rightarrow> response outcome \<times> world" where
  "try_block e ev w =
     bind (stage_request e ev w)
       (\<lambda>(b, hashed_password, curp_text, curp_hash_text, folio_antiguo) w.
     bind (stage_duplicates e b curp_hash_text w) (\<lambda>_ w.
     bind (stage_legacy_folio e folio_antiguo w) (\<lambda>(folio_legacy_text, tipo_tarjeta) w.
     bind (stage_encrypt e b w) (\<lambda>(curp_encrypted, telefono_encrypted) w.
     bind (stage_photo e b curp_text w) (\<lambda>foto_s3_key w.
     bind (stage_insert_joven e b hashed_password curp_hash_text curp_encrypted
             telefono_encrypted foto_s3_key w) (\<lambda>user_id w.
     stage_tarjeta e user_id folio_legacy_text tipo_tarjeta w))))))"

definition lambda_handler :: "env \<Rightarrow> event \<Rightarrow> world \<Rightarrow> response \<times> world" where
  "lambda_handler e ev w =
     (if httpMethod ev = Some ''OPTIONS'' then (reply 200 ''OK'', w)
      else (case try_block e ev w of
              (Continue r, w1) \<Rightarrow> (r, w1)
            | (Return r, w1) \<Rightarrow> (r, w1)
            | (Raise (MySQLError code), w1) \<Rightarrow>
                (if code = 1062 then reply 409 msg_correo_o_curp
                 else reply 500 ''Error de base de datos'', w1)
            | (Raise err, w1) \<Rightarrow>
                (\<lparr>statusCode = 500, message = ''Error interno del servidor'', payload = [],
                  error = Some err\<rparr>, w1)))"

section \<open>Situations the properties speak about\<close>

definition email_registered :: "world \<Rightarrow> dict \<Rightarrow> bool" where
  \<comment> \<open>the request's email matches an existing beneficiary\<close>
  "email_registered w b = (\<exists>r \<in> set (visible_joven w). sql_eq (correo r) (dict_get b ''correo''))"

definition curp_registered :: "env \<Rightarrow> world \<Rightarrow> dict \<Rightarrow> bool" where
  \<comment> \<open>the hash of the request's CURP matches an existing beneficiary\<close>
  "curp_registered e w b =
     (case dict_get b ''curp'' of
        JStr c \<Rightarrow> (\<exists>r \<in> set (visible_joven w). curp_hash r = sha256_hexdigest e c)
      | _ \<Rightarrow> False)"

definition reaches_duplicate_checks :: "env \<Rightarrow> event \<Rightarrow> bool" where
  \<comment> \<open>the request passes the gates before the duplicate checks, and the store answers the
      email query\<close>
  "reaches_duplicate_checks e ev =
     (httpMethod ev \<noteq> Some ''OPTIONS''
      \<and> (case body ev of
            None \<Rightarrow> False
          | Some b \<Rightarrow>
              list_all (\<lambda>field. map_of b field \<noteq> None) required_fields
              \<and> truthy (dict_get b ''consentimientoAceptado'')
              \<and> (case dict_get b ''password'' of
                    JStr p \<Rightarrow> (case bcrypt_hashpw e p of Inr h \<Rightarrow> True | Inl err \<Rightarrow> False)
                  | _ \<Rightarrow> False)
              \<and> (case dict_get b ''curp'' of JStr c \<Rightarrow> True | _ \<Rightarrow> False))
      \<and> connect_error e = None
      \<and> db_error e SelectCorreo = None)"

definition remove_key :: "string \<Rightarrow> dict \<Rightarrow> dict" where
  \<comment> \<open>the same object without a key\<close>
  "remove_key k b = filter (\<lambda>kv. fst kv \<noteq> k) b"

definition upload_fails :: "env \<Rightarrow> json \<Rightarrow> string \<Rightarrow> bool" where
  \<comment> \<open>something raises inside \<^verbatim>\<open>upload_photo_to_s3\<close>: the photo is not a str, it does not
      decode, or \<^verbatim>\<open>put_object\<close> raises\<close>
  "upload_fails e photo_base64 curp_text =
     (case photo_base64 of
        JStr p \<Rightarrow>
          (case b64decode e p of
             None \<Rightarrow> True
           | Some image_data \<Rightarrow>
               s3_put_object e (''fotos_jovenes/'' @ curp_text @ ''_''
                                @ str_int (utc_timestamp e) @ ''.jpg'') \<noteq> None)
      | _ \<Rightarrow> True)"

section \<open>Scenarios\<close>

text \<open>
  Concrete collaborators, stores and requests on which the properties below are
  exercised. In \<open>scenario_env\<close> the store calls and \<^verbatim>\<open>put_object\<close> fail as its two
  arguments say, every other collaborator answers, and the UTC date is in November 2026.
\<close>

definition scenario_env :: "(db_call \<Rightarrow> int option) \<Rightarrow> (string \<Rightarrow> py_exn option) \<Rightarrow> env" where
  "scenario_env store_errors s3_errors =
     \<lparr>bcrypt_hashpw = (\<lambda>p. Inr (''$2b$12$'' @ p)),
      sha256_hexdigest = (\<lambda>c. ''sha256:'' @ c),
      connect_error = None,
      db_error = store_errors,
      kms_encrypt = (\<lambda>p. Inr (''kms:'' @ p)),
      b64decode = (\<lambda>p. Some p),
      s3_put_object = s3_errors,
      utc_year = 2026, utc_month = 11, utc_timestamp = 1793800000\<rparr>"

definition no_errors :: "'a \<Rightarrow> 'b option" where
  "no_errors x = None"

definition demo_env :: env where
  "demo_env = scenario_env no_errors no_errors"

definition empty_world :: world where
  "empty_world =
     \<lparr>joven = [], tarjeta = [], joven_uncommitted = [], tarjeta_uncommitted = [],
      joven_auto_increment = 1, kms_log = [], s3_objects = []\<rparr>"

definition card_with_legacy :: "string \<Rightarrow> tarjeta_row" where
  "card_with_legacy f =
     \<lparr>tarjeta_id_usuario = 7, folio = ''BJ-2026-10-000007-4'', folio_legacy = Some f,
      tipo = ''digital'', estado = ''activa''\<rparr>"

definition world_with_card :: "string \<Rightarrow> world" where
  "world_with_card f = empty_world\<lparr>tarjeta := [card_with_legacy f], joven_auto_increment := 8\<rparr>"

definition demo_body :: dict where
  "demo_body =
     [(''nombre'', JStr ''Ana''), (''apellidoPaterno'', JStr ''Paz''),
      (''curp'', JStr ''PAAA000101MDFZNN01''), (''correo'', JStr ''ana@example.com''),
      (''password'', JStr ''secreto''), (''consentimientoAceptado'', JBool True)]"

definition post :: "dict \<Rightarrow> event" where
  "post b = \<lparr>httpMethod = Some ''POST'', body = Some b\<rparr>"

definition card_insert_fails :: "db_call \<Rightarrow> int option" where
  \<comment> \<open>the INSERT into Tarjeta raises MySQLError 1205 (lock wait timeout)\<close>
  "card_insert_fails c = (if c = InsertTarjeta then Some 1205 else None)"

definition s3_down :: "string \<Rightarrow> py_exn option" where
  "s3_down k = Some ClientError"

definition ana_row :: joven_row where
  "ana_row =
     \<lparr>id_usuario = 1, nombre = JStr ''Ana'', apellido_paterno = JStr ''Paz'',
      apellido_materno = JNull, curp = ''kms:PAAA000101MDFZNN01'',
      curp_hash = ''sha256:PAAA000101MDFZNN01'', fecha_nacimiento = JNull,
      telefono = None, foto = ''default-avatar.JPG'', genero = JNull,
      contrasena = ''$2b$12$secreto'', correo = JStr ''ana@example.com'',
      calle = JNull, colonia = JNull, codigo_postal = JNull, municipio = JNull,
      numero_ext = JNull, numero_int = JNull\<rparr>"

definition world_with_ana :: world where
  "world_with_ana = empty_world\<lparr>joven := [ana_row], joven_auto_increment := 2\<rparr>"

definition ana_registered :: world where
  \<comment> \<open>the world after Ana's row is committed, her CURP having gone to the encryption
      service\<close>
  "ana_registered = world_with_ana\<lparr>kms_log := [''PAAA000101MDFZNN01'']\<rparr>"

definition body_with_folio :: dict where
  "body_with_folio = (''folio_antiguo'', JStr ''1234-5678-9012-0005'') # demo_body"

definition body_with_photo :: dict where
  "body_with_photo = (''foto'', JStr ''aGVsbG8='') # demo_body"

definition body_other_email :: dict where
  "body_other_email = (''correo'', JStr ''otra@example.com'') # demo_body"

section \<open>Properties of the string primitives\<close>

lemma is_decimal_iff: "is_decimal c \<longleftrightarrow> 48 \<le> (of_char c :: nat) \<and> (of_char c :: nat) \<le> 57"
  by (simp add: is_decimal_def less_eq_char_def)

lemma below_ten: "d < 10 \<Longrightarrow> d \<in> {0, 1, 2, 3, 4, 5, 6, 7, 8, 9::nat}"
  by auto

lemma digit_char_decimal: "d < 10 \<Longrightarrow> is_decimal (digit_char d)"
  using below_ten[of d] by (auto simp: is_decimal_iff digit_char_def)

lemma digit_val_digit_char: "d < 10 \<Longrightarrow> digit_val (digit_char d) = int d"
  using below_ten[of d] by (auto simp: digit_val_def digit_char_def)

lemma str_nat_small: "n < 10 \<Longrightarrow> str_nat n = [digit_char n]"
  by (subst str_nat.simps) simp

lemma str_nat_large: "10 \<le> n \<Longrightarrow> str_nat n = str_nat (n div 10) @ [digit_char (n mod 10)]"
  by (subst str_nat.simps) simp

lemma digit_val_range: "is_decimal c \<Longrightarrow> 0 \<le> digit_val c \<and> digit_val c \<le> 9"
  by (simp add: is_decimal_iff digit_val_def)

lemma decimal_not_superscript: "is_decimal c \<Longrightarrow> \<not> is_superscript_digit c"
  by (auto simp: is_decimal_iff is_superscript_digit_def)

lemma decimal_not_space: "is_decimal c \<Longrightarrow> \<not> is_int_space c"
  by (auto simp: is_decimal_iff is_int_space_def)

lemma decimal_not_sign: "is_decimal c \<Longrightarrow> c \<noteq> CHR ''-'' \<and> c \<noteq> CHR ''+'' \<and> c \<noteq> CHR ''_'' \<and> c \<noteq> CHR '' ''"
  by (auto simp: is_decimal_iff)

lemma superscript_not_space: "is_superscript_digit c \<Longrightarrow> \<not> is_int_space c \<and> c \<noteq> CHR ''_'' \<and> c \<noteq> CHR ''-'' \<and> c \<noteq> CHR ''+''"
  by (auto simp: is_superscript_digit_def is_int_space_def)

lemma isdigit_char_plain:
  "isdigit_char c \<Longrightarrow> \<not> is_int_space c \<and> c \<noteq> CHR ''-'' \<and> c \<noteq> CHR ''+'' \<and> c \<noteq> CHR ''_''"
  by (auto simp: isdigit_char_def is_decimal_iff is_superscript_digit_def is_int_space_def)

lemma str_nat_decimal: "list_all is_decimal (str_nat n)"
proof (induction n rule: str_nat.induct)
  case (1 n)
  show ?case
  proof (cases "n < 10")
    case True
    then show ?thesis by (subst str_nat.simps) (simp add: digit_char_decimal)
  next
    case False
    with 1 show ?thesis by (subst str_nat.simps) (simp add: digit_char_decimal)
  qed
qed

lemma str_nat_nonempty: "str_nat n \<noteq> []"
  by (subst str_nat.simps) simp

lemma dec_value_str_nat: "dec_value 0 (str_nat n) = int n"
proof (induction n rule: str_nat.induct)
  case (1 n)
  show ?case
  proof (cases "n < 10")
    case True
    then show ?thesis by (subst str_nat.simps) (simp add: dec_value_def digit_val_digit_char)
  next
    case False
    with 1 have "dec_value 0 (str_nat (n div 10)) = int (n div 10)" by simp
    with False show ?thesis
      by (subst str_nat.simps) (simp add: dec_value_def digit_val_digit_char zdiv_int zmod_int)
  qed
qed

lemma length_str_nat: "0 < k \<Longrightarrow> n < 10 ^ k \<Longrightarrow> length (str_nat n) \<le> k"
proof (induction n arbitrary: k rule: str_nat.induct)
  case (1 n)
  show ?case
  proof (cases "n < 10")
    case True
    with 1(2) show ?thesis by (subst str_nat.simps) simp
  next
    case False
    then obtain k' where k: "k = Suc k'" using 1(2) by (cases k) auto
    with False 1(3) have "0 < k'" by (cases k') auto
    moreover from k 1(3) have "n div 10 < 10 ^ k'" by (simp add: less_mult_imp_div_less mult.commute)
    ultimately have "length (str_nat (n div 10)) \<le> k'" using 1(1) False by blast
    with False k show ?thesis by (subst str_nat.simps) simp
  qed
qed

lemma int_digits_decimal:
  "list_all is_decimal s \<Longrightarrow> int_digits acc s = Some (dec_value acc s, [])"
  by (induction s arbitrary: acc) (simp_all add: dec_value_def)

lemma py_int_decimal:
  assumes "s \<noteq> []" and "list_all is_decimal s"
  shows "py_int s = Inr (dec_value 0 s)"
proof -
  from assms obtain c r where s: "s = c # r" and c: "is_decimal c" and r: "list_all is_decimal r"
    by (cases s) auto
  have "dec_value (digit_val c) r = dec_value 0 s"
    by (simp add: s dec_value_def)
  with c r show ?thesis
    by (simp add: py_int_def s decimal_not_space decimal_not_sign int_digits_decimal)
qed

lemma int_digits_superscript:
  "list_all isdigit_char s \<Longrightarrow> \<exists>c \<in> set s. \<not> is_decimal c \<Longrightarrow>
     \<exists>v c r. int_digits acc s = Some (v, c # r) \<and> is_superscript_digit c"
proof (induction s arbitrary: acc)
  case Nil
  then show ?case by simp
next
  case (Cons a s)
  show ?case
  proof (cases "is_decimal a")
    case True
    with Cons.prems have "list_all isdigit_char s" "\<exists>c \<in> set s. \<not> is_decimal c" by auto
    from Cons.IH[OF this] True show ?thesis by simp
  next
    case False
    with Cons.prems have "is_superscript_digit a" by (simp add: isdigit_char_def)
    with False show ?thesis by (auto simp: superscript_not_space)
  qed
qed

lemma py_int_superscript:
  assumes "list_all isdigit_char s" and "\<exists>c \<in> set s. \<not> is_decimal c"
  shows "py_int s = Inl int_literal_error"
proof -
  from assms obtain c r where s: "s = c # r" by (cases s) auto
  have nsp: "\<not> is_int_space c" "c \<noteq> CHR ''-''" "c \<noteq> CHR ''+''"
    using assms(1) s isdigit_char_plain[of c] by auto
  show ?thesis
  proof (cases "is_decimal c")
    case False
    with nsp show ?thesis by (simp add: py_int_def s)
  next
    case True
    with assms s have "list_all isdigit_char r" "\<exists>c \<in> set r. \<not> is_decimal c" by auto
    from int_digits_superscript[OF this, of "digit_val c"]
    obtain v c' r' where "int_digits (digit_val c) r = Some (v, c' # r')" "is_superscript_digit c'"
      by blast
    with True nsp show ?thesis by (simp add: py_int_def s superscript_not_space)
  qed
qed

section \<open>Properties of \<^verbatim>\<open>calculate_luhn\<close>\<close>

lemma py_int_single_decimal: "is_decimal d \<Longrightarrow> py_int [d] = Inr (digit_val d)"
  using py_int_decimal[of "[d]"] by (simp add: dec_value_def)

lemma py_int_single_superscript: "is_superscript_digit d \<Longrightarrow> py_int [d] = Inl int_literal_error"
  using py_int_superscript[of "[d]"] by (auto simp: isdigit_char_def dest: decimal_not_superscript)

lemma luhn_digits_char:
  "luhn_digits s =
     (if list_ex is_superscript_digit s then Inl int_literal_error else Inr (decimal_values s))"
proof (induction s)
  case Nil
  show ?case by (simp add: decimal_values_def)
next
  case (Cons d s)
  consider (dec) "is_decimal d" | (sup) "is_superscript_digit d" | (other) "\<not> isdigit_char d"
    by (auto simp: isdigit_char_def)
  then show ?case
  proof cases
    case dec
    then have "\<not> is_superscript_digit d" by (rule decimal_not_superscript)
    with dec Cons show ?thesis
      by (simp add: isdigit_def isdigit_char_def py_int_single_decimal decimal_values_def)
  next
    case sup
    then show ?thesis
      by (simp add: isdigit_def isdigit_char_def py_int_single_superscript)
  next
    case other
    with Cons show ?thesis
      by (simp add: isdigit_def isdigit_char_def decimal_values_def)
  qed
qed

lemma luhn_loop_sum:
  "\<forall>d \<in> set ds. d < 10 \<Longrightarrow>
   luhn_loop i ds acc = acc + (\<Sum>j < length ds. spec_luhn_term (i + j) (ds ! j))"
proof (induction ds arbitrary: i acc)
  case Nil
  show ?case by simp
next
  case (Cons d ds)
  then have d: "d < 10" and rest: "\<forall>d \<in> set ds. d < 10" by auto
  have step: "(if (if i mod 2 = 0 then d * 2 else d) < 10 then (if i mod 2 = 0 then d * 2 else d)
               else (if i mod 2 = 0 then d * 2 else d) - 9) = spec_luhn_term i d"
    using d by (auto simp: spec_luhn_term_def even_iff_mod_2_eq_zero)
  have "luhn_loop i (d # ds) acc = luhn_loop (i + 1) ds (acc + spec_luhn_term i d)"
    using step by (simp add: Let_def)
  also have "\<dots> = acc + spec_luhn_term i d
                  + (\<Sum>j < length ds. spec_luhn_term (i + 1 + j) (ds ! j))"
    using Cons.IH[OF rest] by simp
  also have "\<dots> = acc + (\<Sum>j < length (d # ds). spec_luhn_term (i + j) ((d # ds) ! j))"
    by (simp only: length_Cons sum.lessThan_Suc_shift) simp
  finally show ?case .
qed

lemma decimal_values_lt_10: "\<forall>d \<in> set (decimal_values s). d < 10"
  using digit_val_range by (fastforce simp: decimal_values_def)

lemma calculate_luhn_char:
  "calculate_luhn s =
     (if list_ex is_superscript_digit s then Inl int_literal_error
      else Inr (spec_check_digit (decimal_values s)))"
proof (cases "list_ex is_superscript_digit s")
  case True
  then show ?thesis by (simp add: calculate_luhn_def luhn_digits_char)
next
  case False
  have "\<forall>d \<in> set (rev (decimal_values s)). d < 10"
    using decimal_values_lt_10 by simp
  from luhn_loop_sum[OF this, of 0 0] False show ?thesis
    by (simp add: calculate_luhn_def luhn_digits_char spec_check_digit_def)
qed

lemma spec_check_digit_range: "0 \<le> spec_check_digit ds \<and> spec_check_digit ds \<le> 9"
  by (simp add: spec_check_digit_def)





section \<open>Properties of \<^verbatim>\<open>validate_legacy_folio\<close>\<close>

lemma spec_tail_value_eq: "spec_tail_value s = dec_value 0 (last_four s)"
  by (simp add: spec_tail_value_def dec_value_def)

lemma list_all_isdigit_split:
  "list_all isdigit_char s \<Longrightarrow> list_all is_decimal s \<or> list_ex is_superscript_digit s"
  by (induction s) (auto simp: isdigit_char_def)

lemma decimal_imp_isdigit: "list_all is_decimal s \<Longrightarrow> list_all isdigit_char s"
  by (induction s) (auto simp: isdigit_char_def)

lemma decimal_no_superscript: "list_all is_decimal s \<Longrightarrow> \<not> list_ex is_superscript_digit s"
  by (induction s) (auto dest: decimal_not_superscript)

lemma LEGACY_PREFIX_decimal: "list_all is_decimal LEGACY_PREFIX" "length LEGACY_PREFIX = 12"
  by (simp_all add: LEGACY_PREFIX_def is_decimal_iff)

lemma last_four_props:
  "length s = 16 \<Longrightarrow> length (last_four s) = 4"
  "length s = 16 \<Longrightarrow> s = take 12 s @ last_four s"
  by (simp_all add: last_four_def)

lemma validate_legacy_folio_char:
  "validate_legacy_folio s =
     (let n = normalize_folio s
      in if length n = 16 \<and> list_all isdigit_char n \<and> list_ex is_superscript_digit n
         then (if take 12 n = LEGACY_PREFIX then Inl int_literal_error
               else Inr (False, msg_formato))
         else Inr (spec_validate s))"
proof -
  define n where "n = normalize_folio s"
  show ?thesis
  proof (cases "length n = 16")
    case False
    then show ?thesis
      by (simp add: validate_legacy_folio_def spec_validate_def n_def[symmetric])
  next
    case len: True
    then have ne: "n \<noteq> []" by auto
    show ?thesis
    proof (cases "list_all isdigit_char n")
      case False
      then have "\<not> list_all is_decimal n" using decimal_imp_isdigit by blast
      with False len show ?thesis
        by (simp add: validate_legacy_folio_def spec_validate_def n_def[symmetric] isdigit_def)
    next
      case dig: True
      show ?thesis
      proof (cases "list_ex is_superscript_digit n")
        case sup: True
        show ?thesis
        proof (cases "take 12 n = LEGACY_PREFIX")
          case False
          with len dig sup ne show ?thesis
            by (simp add: validate_legacy_folio_def n_def[symmetric] isdigit_def startswith_def
                  LEGACY_PREFIX_decimal)
        next
          case pre: True
          have split: "n = take 12 n @ last_four n" using len by (rule last_four_props)
          have "list_ex is_superscript_digit (take 12 n @ last_four n)" using sup split by simp
          then have "list_ex is_superscript_digit (last_four n)"
            using pre LEGACY_PREFIX_decimal(1) decimal_no_superscript by auto
          then have bad: "\<exists>c \<in> set (last_four n). \<not> is_decimal c"
            using decimal_not_superscript by (auto simp: list_ex_iff)
          have "list_all isdigit_char (take 12 n @ last_four n)" using dig split by simp
          then have "list_all isdigit_char (last_four n)" by simp
          from py_int_superscript[OF this bad] len dig sup ne pre show ?thesis
            by (simp add: validate_legacy_folio_def n_def[symmetric] isdigit_def startswith_def
                  LEGACY_PREFIX_decimal)
        qed
      next
        case nosup: False
        with dig have dec: "list_all is_decimal n" using list_all_isdigit_split by blast
        have split: "n = take 12 n @ last_four n" using len by (rule last_four_props)
        have "list_all is_decimal (take 12 n @ last_four n)" using dec split by simp
        then have tail: "list_all is_decimal (last_four n)" by simp
        have "last_four n \<noteq> []" using last_four_props(1)[OF len] by auto
        from py_int_decimal[OF this tail] len dig nosup ne dec show ?thesis
          by (auto simp: validate_legacy_folio_def spec_validate_def n_def[symmetric] isdigit_def
                startswith_def LEGACY_PREFIX_decimal spec_tail_value_eq Let_def)
      qed
    qed
  qed
qed

lemma validate_accepts_iff:
  "validate_legacy_folio s = Inr (True, msg_valido) \<longleftrightarrow>
     (length (normalize_folio s) = 16 \<and> list_all is_decimal (normalize_folio s)
      \<and> take 12 (normalize_folio s) = LEGACY_PREFIX
      \<and> 1 \<le> spec_tail_value (normalize_folio s) \<and> spec_tail_value (normalize_folio s) \<le> 9999)"
  using decimal_no_superscript[of "normalize_folio s"]
  by (auto simp: validate_legacy_folio_char spec_validate_def Let_def)



text \<open>
  C4. \<^verbatim>\<open>validate_legacy_folio\<close> accepts exactly the strings that are, without spaces
  and dashes, 16 decimal digits with the prefix 123456789012 and a tail in
  \<open>[1, 9999]\<close>, and reports the reason of the first failing rule. Acceptance is as
  stated (\<open>validate_accepts_iff\<close>). The result is the one of the four rules on every
  string but the 16-character strings of \<^verbatim>\<open>str.isdigit\<close> characters that hold a
  superscript digit: these pass the digit test of the source, and get the reason of
  rule 3, or a ValueError from \<^verbatim>\<open>int()\<close> when the prefix is right. On the prefix
  followed by \<^verbatim>\<open>000\<close> and U+00B2, rule 2 (only decimal digits) is the first to fail,
  and the source raises, so that no reason is reported.
\<close>

theorem validate_legacy_folio_against_specification:
  "validate_legacy_folio s =
     (if length (normalize_folio s) = 16 \<and> list_all isdigit_char (normalize_folio s)
         \<and> list_ex is_superscript_digit (normalize_folio s)
      then (if take 12 (normalize_folio s) = LEGACY_PREFIX then Inl int_literal_error
            else Inr (False, msg_formato))
      else Inr (spec_validate s))
   \<and> validate_legacy_folio (''123456789012000'' @ [CHR 0xB2]) = Inl int_literal_error
   \<and> spec_validate (''123456789012000'' @ [CHR 0xB2]) = (False, msg_solo_numeros)"
proof -
  have general: "validate_legacy_folio s =
     (if length (normalize_folio s) = 16 \<and> list_all isdigit_char (normalize_folio s)
         \<and> list_ex is_superscript_digit (normalize_folio s)
      then (if take 12 (normalize_folio s) = LEGACY_PREFIX then Inl int_literal_error
            else Inr (False, msg_formato))
      else Inr (spec_validate s))"
    by (simp only: validate_legacy_folio_char Let_def)
  have n: "normalize_folio (''123456789012000'' @ [CHR 0xB2]) = ''123456789012000'' @ [CHR 0xB2]"
    by (simp add: normalize_folio_def remove_char_def)
  have raises: "validate_legacy_folio (''123456789012000'' @ [CHR 0xB2]) = Inl int_literal_error"
    unfolding validate_legacy_folio_char n
    by (simp add: isdigit_char_def is_superscript_digit_def is_decimal_iff LEGACY_PREFIX_def)
  have "spec_validate (''123456789012000'' @ [CHR 0xB2]) = (False, msg_solo_numeros)"
    unfolding spec_validate_def n
    by (simp add: is_decimal_iff)
  with general raises show ?thesis by blast
qed


section \<open>Properties of \<^verbatim>\<open>get_next_legacy_folio\<close>\<close>

lemma zfill_decimal:
  "list_all is_decimal s \<Longrightarrow> zfill w s = replicate (w - length s) CHR ''0'' @ s"
  by (cases s) (auto simp: zfill_def dest: decimal_not_sign)

lemma zero_decimal: "is_decimal CHR ''0''" "digit_val CHR ''0'' = 0"
  by (simp_all add: is_decimal_iff digit_val_def)

lemma dec_value_zeros: "dec_value 0 (replicate k CHR ''0'' @ s) = dec_value 0 s"
  by (induction k) (simp_all add: dec_value_def zero_decimal)

lemma str_int_nonneg: "0 \<le> n \<Longrightarrow> str_int n = str_nat (nat n)"
  by (simp add: str_int_def)

lemma zfill_str_int:
  assumes "0 \<le> n"
  shows "list_all is_decimal (zfill w (str_int n))"
    and "dec_value 0 (zfill w (str_int n)) = n"
    and "zfill w (str_int n) \<noteq> []"
    and "0 < w \<Longrightarrow> n < 10 ^ w \<Longrightarrow> length (zfill w (str_int n)) = w"
proof -
  have z: "zfill w (str_int n) = replicate (w - length (str_nat (nat n))) CHR ''0'' @ str_nat (nat n)"
    using assms by (simp add: str_int_nonneg zfill_decimal str_nat_decimal)
  show "list_all is_decimal (zfill w (str_int n))"
    using str_nat_decimal[of "nat n"] by (auto simp: z zero_decimal list_all_iff)
  show "dec_value 0 (zfill w (str_int n)) = n"
    using assms by (simp add: z dec_value_zeros dec_value_str_nat)
  show "zfill w (str_int n) \<noteq> []"
    by (simp add: z str_nat_nonempty)
  show "length (zfill w (str_int n)) = w" if "0 < w" "n < 10 ^ w"
  proof -
    have "nat n < 10 ^ w" using that assms by (simp add: nat_less_iff)
    from length_str_nat[OF that(1) this] show ?thesis by (simp add: z)
  qed
qed

lemma last_four_append: "length t = 4 \<Longrightarrow> last_four (p @ t) = t"
  by (simp add: last_four_def)




lemma set_map_filter_Some: "set (List.map_filter f xs) = {y. \<exists>x \<in> set xs. f x = Some y}"
  by (induction xs) (auto split: option.splits)

lemma set_legacy_candidates: "set (legacy_candidates (visible_tarjeta w)) = stored_prefix_folios w"
  by (auto simp: legacy_candidates_def stored_prefix_folios_def set_map_filter_Some startswith_def
        LEGACY_PREFIX_decimal(2))

lemma select_max_None:
  "select_max_folio_legacy (visible_tarjeta w) = None \<longleftrightarrow> stored_prefix_folios w = {}"
  using set_legacy_candidates[of w]
  by (cases "legacy_candidates (visible_tarjeta w)") (auto simp: select_max_folio_legacy_def)

lemma select_max_Some:
  "select_max_folio_legacy (visible_tarjeta w) = Some m \<longleftrightarrow>
     (m \<in> stored_prefix_folios w \<and> (\<forall>g \<in> stored_prefix_folios w. g \<le> m))"
proof (cases "legacy_candidates (visible_tarjeta w)")
  case Nil
  with set_legacy_candidates[of w] show ?thesis by (auto simp: select_max_folio_legacy_def)
next
  case (Cons f fs)
  have st: "set (f # fs) = stored_prefix_folios w"
    by (simp only: Cons[symmetric] set_legacy_candidates)
  have fin: "finite (set (f # fs))" "set (f # fs) \<noteq> {}" by simp_all
  have "fold max fs f = Max (set (f # fs))" by (rule Max.set_eq_fold[symmetric])
  moreover have "Max (set (f # fs)) = m \<longleftrightarrow> (m \<in> set (f # fs) \<and> (\<forall>g \<in> set (f # fs). g \<le> m))"
    using fin by (metis Max_eqI Max_ge Max_in)
  ultimately have "fold max fs f = m \<longleftrightarrow> (m \<in> stored_prefix_folios w \<and> (\<forall>g \<in> stored_prefix_folios w. g \<le> m))"
    by (simp only: st)
  then show ?thesis
    by (simp add: select_max_folio_legacy_def Cons)
qed

lemma get_next_from_tail:
  assumes "db_error e SelectMaxFolioLegacy = None"
    and "select_max_folio_legacy (visible_tarjeta w) = Some (p @ zfill 4 (str_int t))"
    and "0 \<le> t" and "t \<le> 9999"
  shows "get_next_legacy_folio e w =
           (if t + 1 > 9999 then Inl exhausted_error
            else Inr (''123456789012'' @ zfill 4 (str_int (t + 1))))"
proof -
  let ?t = "zfill 4 (str_int t)"
  have len: "length ?t = 4" using zfill_str_int(4)[OF assms(3), of 4] assms(4) by simp
  have "py_int ?t = Inr t"
    using py_int_decimal[OF zfill_str_int(3)[OF assms(3)] zfill_str_int(1)[OF assms(3)], of 4]
    by (simp add: zfill_str_int(2)[OF assms(3)])
  with assms(1,2) show ?thesis
    by (simp add: get_next_legacy_folio_def last_four_append[OF len] Let_def)
qed

lemma stored_empty_world: "stored_prefix_folios empty_world = {}"
  by (simp add: stored_prefix_folios_def visible_tarjeta_def empty_world_def)

lemma stored_world_with_card:
  "take 12 f = LEGACY_PREFIX \<Longrightarrow> stored_prefix_folios (world_with_card f) = {f}"
  by (auto simp: stored_prefix_folios_def visible_tarjeta_def empty_world_def world_with_card_def
        card_with_legacy_def)

lemma replicate_numeral_unfold: "replicate (numeral k) x = x # replicate (pred_numeral k) x"
  by (simp add: numeral_eq_Suc)

lemmas str_eval =
  zfill_def str_int_def str_nat_small str_nat_large digit_char_def replicate_numeral_unfold

lemma zfill4_examples:
  "zfill 4 (str_int 1) = ''0001''" "zfill 4 (str_int 2) = ''0002''"
  "zfill 4 (str_int 7) = ''0007''" "zfill 4 (str_int 8) = ''0008''"
  by (simp_all add: str_eval)

text \<open>
  C3. \<^verbatim>\<open>get_next_legacy_folio\<close>, when the query is answered: with no stored folio
  under the prefix 123456789012 it returns 1234567890120001; when the highest stored
  folio under the prefix has the four-digit tail \<open>t\<close> with \<open>1 \<le> t \<le> 9998\<close> it returns the
  prefix followed by \<open>t + 1\<close> padded to four digits; when the highest stored tail is
  9999 it raises the ValueError of the exhausted sequence instead of returning.
\<close>

theorem get_next_legacy_folio_sequence:
  assumes "db_error e SelectMaxFolioLegacy = None"
  shows "(stored_prefix_folios w = {} \<longrightarrow> get_next_legacy_folio e w = Inr ''1234567890120001'')
       \<and> (\<forall>t. 1 \<le> t \<and> t \<le> 9998
              \<and> LEGACY_PREFIX @ zfill 4 (str_int t) \<in> stored_prefix_folios w
              \<and> (\<forall>g \<in> stored_prefix_folios w. g \<le> LEGACY_PREFIX @ zfill 4 (str_int t))
            \<longrightarrow> get_next_legacy_folio e w = Inr (LEGACY_PREFIX @ zfill 4 (str_int (t + 1))))
       \<and> (LEGACY_PREFIX @ ''9999'' \<in> stored_prefix_folios w
            \<and> (\<forall>g \<in> stored_prefix_folios w. g \<le> LEGACY_PREFIX @ ''9999'')
          \<longrightarrow> get_next_legacy_folio e w = Inl exhausted_error)"
proof (intro conjI impI allI)
  assume "stored_prefix_folios w = {}"
  then have "select_max_folio_legacy (visible_tarjeta w) = None" by (simp add: select_max_None)
  with assms show "get_next_legacy_folio e w = Inr ''1234567890120001''"
    by (simp add: get_next_legacy_folio_def)
next
  fix t :: int
  assume t: "1 \<le> t \<and> t \<le> 9998
              \<and> LEGACY_PREFIX @ zfill 4 (str_int t) \<in> stored_prefix_folios w
              \<and> (\<forall>g \<in> stored_prefix_folios w. g \<le> LEGACY_PREFIX @ zfill 4 (str_int t))"
  then have "select_max_folio_legacy (visible_tarjeta w) = Some (LEGACY_PREFIX @ zfill 4 (str_int t))"
    by (simp add: select_max_Some)
  from get_next_from_tail[OF assms this] t
  show "get_next_legacy_folio e w = Inr (LEGACY_PREFIX @ zfill 4 (str_int (t + 1)))"
    by (simp add: LEGACY_PREFIX_def)
next
  have nines: "zfill 4 (str_int 9999) = ''9999''"
    by (simp add: str_eval)
  assume "LEGACY_PREFIX @ ''9999'' \<in> stored_prefix_folios w
            \<and> (\<forall>g \<in> stored_prefix_folios w. g \<le> LEGACY_PREFIX @ ''9999'')"
  then have "select_max_folio_legacy (visible_tarjeta w) = Some (LEGACY_PREFIX @ ''9999'')"
    by (simp add: select_max_Some)
  then have "select_max_folio_legacy (visible_tarjeta w) = Some (LEGACY_PREFIX @ zfill 4 (str_int 9999))"
    by (simp only: nines)
  from get_next_from_tail[OF assms this]
  show "get_next_legacy_folio e w = Inl exhausted_error"
    by simp
qed

theorem get_next_legacy_folio_sequence_witness:
  "get_next_legacy_folio demo_env empty_world = Inr ''1234567890120001''
   \<and> get_next_legacy_folio demo_env (world_with_card ''1234567890120001'') = Inr ''1234567890120002''
   \<and> get_next_legacy_folio demo_env (world_with_card ''1234567890129999'') = Inl exhausted_error"
proof -
  have e: "db_error demo_env SelectMaxFolioLegacy = None" by (simp add: demo_env_def scenario_env_def no_errors_def)
  have a: "get_next_legacy_folio demo_env empty_world = Inr ''1234567890120001''"
    using get_next_legacy_folio_sequence[OF e, of empty_world] stored_empty_world by simp
  have s1: "stored_prefix_folios (world_with_card ''1234567890120001'') = {''1234567890120001''}"
    by (rule stored_world_with_card) (simp add: LEGACY_PREFIX_def)
  have "1 \<le> (1::int) \<and> (1::int) \<le> 9998
          \<and> LEGACY_PREFIX @ zfill 4 (str_int 1) \<in> stored_prefix_folios (world_with_card ''1234567890120001'')
          \<and> (\<forall>g \<in> stored_prefix_folios (world_with_card ''1234567890120001'').
                g \<le> LEGACY_PREFIX @ zfill 4 (str_int 1))"
    by (simp add: s1 zfill4_examples LEGACY_PREFIX_def)
  with get_next_legacy_folio_sequence[OF e, of "world_with_card ''1234567890120001''"]
  have "get_next_legacy_folio demo_env (world_with_card ''1234567890120001'')
          = Inr (LEGACY_PREFIX @ zfill 4 (str_int (1 + 1)))"
    by blast
  then have b: "get_next_legacy_folio demo_env (world_with_card ''1234567890120001'')
          = Inr ''1234567890120002''"
    by (simp add: zfill4_examples LEGACY_PREFIX_def)
  have s9: "stored_prefix_folios (world_with_card ''1234567890129999'') = {''1234567890129999''}"
    by (rule stored_world_with_card) (simp add: LEGACY_PREFIX_def)
  have "LEGACY_PREFIX @ ''9999'' \<in> stored_prefix_folios (world_with_card ''1234567890129999'')
          \<and> (\<forall>g \<in> stored_prefix_folios (world_with_card ''1234567890129999'').
                g \<le> LEGACY_PREFIX @ ''9999'')"
    by (simp add: s9 LEGACY_PREFIX_def)
  with get_next_legacy_folio_sequence[OF e, of "world_with_card ''1234567890129999''"]
  have c: "get_next_legacy_folio demo_env (world_with_card ''1234567890129999'') = Inl exhausted_error"
    by blast
  from a b c show ?thesis by simp
qed





section \<open>Properties of \<^verbatim>\<open>generate_new_folio\<close>\<close>

lemma split_dash_nonempty: "split_dash s \<noteq> []"
  by (induction s) (auto split: list.splits)

lemma split_dash_plain: "CHR ''-'' \<notin> set a \<Longrightarrow> split_dash a = [a]"
  by (induction a) auto

lemma split_dash_append:
  "CHR ''-'' \<notin> set a \<Longrightarrow> split_dash (a @ CHR ''-'' # rest) = a # split_dash rest"
  by (induction a) auto

lemma decimal_no_dash: "list_all is_decimal s \<Longrightarrow> CHR ''-'' \<notin> set s"
  by (induction s) (auto dest: decimal_not_sign)

lemma dec_value_snoc: "dec_value acc (s @ [c]) = dec_value acc s * 10 + digit_val c"
  by (simp add: dec_value_def)

lemma dec_value_bound:
  "list_all is_decimal s \<Longrightarrow> 0 \<le> dec_value 0 s \<and> dec_value 0 s < 10 ^ length s"
proof (induction s rule: rev_induct)
  case Nil
  show ?case by (simp add: dec_value_def)
next
  case (snoc c s)
  then have ih: "0 \<le> dec_value 0 s" "dec_value 0 s < 10 ^ length s" and c: "is_decimal c"
    by auto
  from digit_val_range[OF c] ih show ?case
    by (simp add: dec_value_snoc)
qed

lemma decimal_tail_not_negative:
  "s \<noteq> [] \<Longrightarrow> list_all is_decimal s \<Longrightarrow> py_int s = Inr n \<Longrightarrow> 0 \<le> n"
  using py_int_decimal[of s] dec_value_bound[of s] by simp

lemma length_str_int_year:
  assumes "1000 \<le> y" and "y \<le> 9999"
  shows "length (str_int y) = 4"
proof -
  have y0: "0 \<le> y" using assms by simp
  have s: "str_int y = str_nat (nat y)" using y0 by (rule str_int_nonneg)
  have "nat y < 10 ^ 4" using assms by simp
  then have up: "length (str_nat (nat y)) \<le> 4" by (intro length_str_nat) simp_all
  have "dec_value 0 (str_nat (nat y)) < 10 ^ length (str_nat (nat y))"
    using dec_value_bound[OF str_nat_decimal] by blast
  then have lt: "y < 10 ^ length (str_nat (nat y))"
    using y0 by (simp add: dec_value_str_nat)
  have "\<not> length (str_nat (nat y)) \<le> 3"
  proof
    assume "length (str_nat (nat y)) \<le> 3"
    then have "(10::int) ^ length (str_nat (nat y)) \<le> 10 ^ 3"
      by (intro power_increasing) simp_all
    with lt assms show False by simp
  qed
  with up show ?thesis by (simp add: s)
qed

lemma str_int_inj: "0 \<le> a \<Longrightarrow> 0 \<le> b \<Longrightarrow> str_int a = str_int b \<Longrightarrow> a = b"
  by (metis dec_value_str_nat int_nat_eq str_int_nonneg)

lemma zfill_str_int_inj:
  "0 \<le> a \<Longrightarrow> 0 \<le> b \<Longrightarrow> zfill w (str_int a) = zfill w (str_int b) \<Longrightarrow> a = b"
  by (metis zfill_str_int(2))

lemma str_int_decimal: "0 \<le> n \<Longrightarrow> list_all is_decimal (str_int n) \<and> str_int n \<noteq> []"
  by (simp add: str_int_nonneg str_nat_decimal str_nat_nonempty)

lemma no_superscript_append:
  "list_ex is_superscript_digit (a @ b) \<longleftrightarrow> list_ex is_superscript_digit a \<or> list_ex is_superscript_digit b"
  by simp

lemma generate_new_folio_char:
  assumes "0 \<le> y" and "0 \<le> m" and "0 \<le> user_id"
  shows "generate_new_folio (y, m) user_id =
           Inr (''BJ-'' @ str_int y @ ''-'' @ zfill 2 (str_int m) @ ''-'' @ zfill 6 (str_int user_id)
                @ ''-'' @ str_int (spec_check_digit (decimal_values
                    (''BJ'' @ str_int y @ zfill 2 (str_int m) @ zfill 6 (str_int user_id)))))"
    and "calculate_luhn (''BJ'' @ str_int y @ zfill 2 (str_int m) @ zfill 6 (str_int user_id)) =
           Inr (spec_check_digit (decimal_values
                    (''BJ'' @ str_int y @ zfill 2 (str_int m) @ zfill 6 (str_int user_id))))"
proof -
  let ?base = "''BJ'' @ str_int y @ zfill 2 (str_int m) @ zfill 6 (str_int user_id)"
  have "\<not> list_ex is_superscript_digit (str_int y)"
       "\<not> list_ex is_superscript_digit (zfill 2 (str_int m))"
       "\<not> list_ex is_superscript_digit (zfill 6 (str_int user_id))"
    using assms str_int_decimal zfill_str_int(1) decimal_no_superscript by blast+
  then have "\<not> list_ex is_superscript_digit ?base"
    by (simp add: is_superscript_digit_def)
  then show c: "calculate_luhn ?base = Inr (spec_check_digit (decimal_values ?base))"
    by (simp only: calculate_luhn_char if_False)
  show "generate_new_folio (y, m) user_id =
           Inr (''BJ-'' @ str_int y @ ''-'' @ zfill 2 (str_int m) @ ''-'' @ zfill 6 (str_int user_id)
                @ ''-'' @ str_int (spec_check_digit (decimal_values ?base)))"
    unfolding generate_new_folio_def Let_def fst_conv snd_conv c by simp
qed

lemma split_dash_folio:
  assumes "0 \<le> y" and "0 \<le> m" and "0 \<le> user_id" and "0 \<le> d"
  shows "split_dash (''BJ-'' @ str_int y @ ''-'' @ zfill 2 (str_int m) @ ''-''
                      @ zfill 6 (str_int user_id) @ ''-'' @ str_int d)
         = [''BJ'', str_int y, zfill 2 (str_int m), zfill 6 (str_int user_id), str_int d]"
proof -
  have nd: "CHR ''-'' \<notin> set (str_int y)" "CHR ''-'' \<notin> set (zfill 2 (str_int m))"
    "CHR ''-'' \<notin> set (zfill 6 (str_int user_id))" "CHR ''-'' \<notin> set (str_int d)"
    "CHR ''-'' \<notin> set ''BJ''"
    using assms str_int_decimal zfill_str_int(1) decimal_no_dash by (blast, blast, blast, blast, simp)
  have "''BJ-'' @ str_int y @ ''-'' @ zfill 2 (str_int m) @ ''-''
                      @ zfill 6 (str_int user_id) @ ''-'' @ str_int d
        = ''BJ'' @ CHR ''-'' # (str_int y @ CHR ''-'' # (zfill 2 (str_int m) @ CHR ''-'' #
             (zfill 6 (str_int user_id) @ CHR ''-'' # str_int d)))"
    by simp
  then show ?thesis
    by (simp only: split_dash_append[OF nd(5)] split_dash_append[OF nd(1)]
          split_dash_append[OF nd(2)] split_dash_append[OF nd(3)] split_dash_plain[OF nd(4)])
qed

text \<open>
  C6. \<^verbatim>\<open>generate_new_folio\<close> on a positive identifier, at a UTC date with year \<open>y\<close> and
  month \<open>m\<close>, returns \<^verbatim>\<open>BJ-\<close>, the year, a dash, the month padded to two digits, a dash,
  the identifier padded to six digits, a dash and the check digit, where the check digit
  is \<^verbatim>\<open>calculate_luhn\<close> of the same parts without dashes; the year has four digits from
  the year 1000 on and the identifier segment six digits up to 999999. The result is a
  function of the identifier and the month of the call: the same month gives the same
  string, two different months give different strings, and the identifier segment (the
  fourth dash-separated segment) is the same in both.
\<close>

theorem generate_new_folio_format:
  assumes "0 < user_id"
    and "1 \<le> y1 \<and> y1 \<le> 9999 \<and> 1 \<le> m1 \<and> m1 \<le> 12"
    and "1 \<le> y2 \<and> y2 \<le> 9999 \<and> 1 \<le> m2 \<and> m2 \<le> 12"
  shows "\<exists>d f1 f2.
           calculate_luhn (''BJ'' @ str_int y1 @ zfill 2 (str_int m1) @ zfill 6 (str_int user_id)) = Inr d
         \<and> 0 \<le> d \<and> d \<le> 9
         \<and> generate_new_folio (y1, m1) user_id = Inr f1
         \<and> f1 = ''BJ-'' @ str_int y1 @ ''-'' @ zfill 2 (str_int m1) @ ''-''
                  @ zfill 6 (str_int user_id) @ ''-'' @ str_int d
         \<and> (1000 \<le> y1 \<longrightarrow> length (str_int y1) = 4)
         \<and> length (zfill 2 (str_int m1)) = 2
         \<and> (user_id \<le> 999999 \<longrightarrow> length (zfill 6 (str_int user_id)) = 6)
         \<and> generate_new_folio (y2, m2) user_id = Inr f2
         \<and> ((y1, m1) = (y2, m2) \<longrightarrow> f1 = f2)
         \<and> ((y1, m1) \<noteq> (y2, m2) \<longrightarrow> f1 \<noteq> f2)
         \<and> split_dash f1 ! 3 = zfill 6 (str_int user_id)
         \<and> split_dash f2 ! 3 = zfill 6 (str_int user_id)"
proof -
  let ?b1 = "''BJ'' @ str_int y1 @ zfill 2 (str_int m1) @ zfill 6 (str_int user_id)"
  let ?b2 = "''BJ'' @ str_int y2 @ zfill 2 (str_int m2) @ zfill 6 (str_int user_id)"
  let ?d1 = "spec_check_digit (decimal_values ?b1)"
  let ?d2 = "spec_check_digit (decimal_values ?b2)"
  let ?f1 = "''BJ-'' @ str_int y1 @ ''-'' @ zfill 2 (str_int m1) @ ''-''
                  @ zfill 6 (str_int user_id) @ ''-'' @ str_int ?d1"
  let ?f2 = "''BJ-'' @ str_int y2 @ ''-'' @ zfill 2 (str_int m2) @ ''-''
                  @ zfill 6 (str_int user_id) @ ''-'' @ str_int ?d2"
  have nn: "0 \<le> y1" "0 \<le> m1" "0 \<le> y2" "0 \<le> m2" "0 \<le> user_id"
    using assms by simp_all
  have d1: "0 \<le> ?d1" "?d1 \<le> 9" and d2: "0 \<le> ?d2"
    using spec_check_digit_range by blast+
  have luhn: "calculate_luhn ?b1 = Inr ?d1"
    by (rule generate_new_folio_char(2)[OF nn(1) nn(2) nn(5)])
  have g1: "generate_new_folio (y1, m1) user_id = Inr ?f1"
    by (rule generate_new_folio_char(1)[OF nn(1) nn(2) nn(5)])
  have g2: "generate_new_folio (y2, m2) user_id = Inr ?f2"
    by (rule generate_new_folio_char(1)[OF nn(3) nn(4) nn(5)])
  have s1: "split_dash ?f1 = [''BJ'', str_int y1, zfill 2 (str_int m1), zfill 6 (str_int user_id), str_int ?d1]"
    by (rule split_dash_folio[OF nn(1) nn(2) nn(5) d1(1)])
  have s2: "split_dash ?f2 = [''BJ'', str_int y2, zfill 2 (str_int m2), zfill 6 (str_int user_id), str_int ?d2]"
    by (rule split_dash_folio[OF nn(3) nn(4) nn(5) d2])
  have year: "1000 \<le> y1 \<longrightarrow> length (str_int y1) = 4"
    using assms(2) length_str_int_year by blast
  have month: "length (zfill 2 (str_int m1)) = 2"
    using zfill_str_int(4)[OF nn(2), of 2] assms(2) by simp
  have seq: "user_id \<le> 999999 \<longrightarrow> length (zfill 6 (str_int user_id)) = 6"
    using zfill_str_int(4)[OF nn(5), of 6] by simp
  have same: "(y1, m1) = (y2, m2) \<longrightarrow> ?f1 = ?f2" by auto
  have differ: "(y1, m1) \<noteq> (y2, m2) \<longrightarrow> ?f1 \<noteq> ?f2"
  proof (intro impI notI)
    assume ne: "(y1, m1) \<noteq> (y2, m2)" and eq: "?f1 = ?f2"
    from eq have "split_dash ?f1 = split_dash ?f2" by (rule arg_cong)
    then have "str_int y1 = str_int y2" "zfill 2 (str_int m1) = zfill 2 (str_int m2)"
      unfolding s1 s2 by simp_all
    then have "y1 = y2" "m1 = m2"
      using str_int_inj[OF nn(1) nn(3)] zfill_str_int_inj[OF nn(2) nn(4)] by blast+
    with ne show False by simp
  qed
  have seg1: "split_dash ?f1 ! 3 = zfill 6 (str_int user_id)" unfolding s1 by simp
  have seg2: "split_dash ?f2 ! 3 = zfill 6 (str_int user_id)" unfolding s2 by simp
  from luhn d1 g1 g2 year month seq same differ seg1 seg2 show ?thesis
    by blast
qed

theorem generate_new_folio_format_witness:
  "generate_new_folio (2026, 11) 42 = Inr ''BJ-2026-11-000042-2''
   \<and> generate_new_folio (2026, 12) 42 = Inr ''BJ-2026-12-000042-0''
   \<and> calculate_luhn ''BJ202611000042'' = Inr 2
   \<and> split_dash ''BJ-2026-11-000042-2'' ! 3 = ''000042''
   \<and> split_dash ''BJ-2026-12-000042-0'' ! 3 = ''000042''"
proof -
  have h: "(0::int) < 42" "1 \<le> (2026::int) \<and> (2026::int) \<le> 9999 \<and> 1 \<le> (11::int) \<and> (11::int) \<le> 12"
    "1 \<le> (2026::int) \<and> (2026::int) \<le> 9999 \<and> 1 \<le> (12::int) \<and> (12::int) \<le> 12"
    by simp_all
  have ev: "str_int 2026 = ''2026''" "zfill 2 (str_int 11) = ''11''" "zfill 2 (str_int 12) = ''12''"
    "zfill 6 (str_int 42) = ''000042''"
    by (simp_all add: str_eval)
  from generate_new_folio_format[OF h]
  obtain d f1 f2 where
    c: "calculate_luhn (''BJ'' @ str_int 2026 @ zfill 2 (str_int 11) @ zfill 6 (str_int 42)) = Inr d"
    and g1: "generate_new_folio (2026, 11) 42 = Inr f1"
    and f1: "f1 = ''BJ-'' @ str_int 2026 @ ''-'' @ zfill 2 (str_int 11) @ ''-''
                  @ zfill 6 (str_int 42) @ ''-'' @ str_int d"
    and g2: "generate_new_folio (2026, 12) 42 = Inr f2"
    and seg: "split_dash f1 ! 3 = zfill 6 (str_int 42)" "split_dash f2 ! 3 = zfill 6 (str_int 42)"
    by blast
  have l11: "calculate_luhn ''BJ202611000042'' = Inr 2"
    by (simp add: calculate_luhn_char is_superscript_digit_def decimal_values_def is_decimal_iff
          digit_val_def spec_check_digit_def spec_luhn_term_def lessThan_nat_numeral
          lessThan_Suc)
  have l12: "calculate_luhn ''BJ202612000042'' = Inr 0"
    by (simp add: calculate_luhn_char is_superscript_digit_def decimal_values_def is_decimal_iff
          digit_val_def spec_check_digit_def spec_luhn_term_def lessThan_nat_numeral
          lessThan_Suc)
  from c l11 have d: "d = 2" by (simp add: ev)
  have e1: "f1 = ''BJ-2026-11-000042-2''" unfolding f1 d by (simp add: ev str_eval)
  have e2: "generate_new_folio (2026, 12) 42 = Inr ''BJ-2026-12-000042-0''"
    by (simp add: generate_new_folio_def ev l12 str_eval)
  with g2 have e2': "f2 = ''BJ-2026-12-000042-0''" by simp
  from g1 e1 e2 l11 seg e2' show ?thesis by (simp add: ev)
qed



section \<open>Properties of \<^verbatim>\<open>lambda_handler\<close>\<close>

lemma bind_simps:
  "bind (Continue x, w) f = f x w"
  "bind (Return r, w) f = (Return r, w)"
  "bind (Raise err, w) f = (Raise err, w)"
  by (simp_all add: bind_def)

lemma bind_cases:
  assumes "bind m f = (out, w')"
  obtains (continue) x w1 where "m = (Continue x, w1)" "f x w1 = (out, w')"
  | (return) r where "m = (Return r, w')" "out = Return r"
  | (raise) err where "m = (Raise err, w')" "out = Raise err"
  using assms by (auto simp: bind_def split: prod.splits outcome.splits)

lemma reply_simps [simp]:
  "statusCode (reply code msg) = code" "message (reply code msg) = msg"
  "payload (reply code msg) = []" "error (reply code msg) = None"
  by (simp_all add: reply_def)

lemma stage_request_world: "snd (stage_request e ev w) = w"
  by (auto simp: stage_request_def Let_def split: option.splits json.splits sum.splits)

lemma stage_request_Return:
  "stage_request e ev w = (Return r, w') \<Longrightarrow> statusCode r = 400"
  by (auto simp: stage_request_def Let_def split: option.splits json.splits sum.splits if_splits)

lemma stage_request_Continue:
  "stage_request e ev w = (Continue (b, hashed_password, curp_text, curp_hash_text, folio_antiguo), w') \<Longrightarrow>
     body ev = Some b \<and> w' = w \<and> dict_get b ''curp'' = JStr curp_text
     \<and> curp_hash_text = sha256_hexdigest e curp_text
     \<and> folio_antiguo = dict_get b ''folio_antiguo''
     \<and> (\<exists>password. dict_get b ''password'' = JStr password
            \<and> bcrypt_hashpw e password = Inr hashed_password)"
  by (auto simp: stage_request_def Let_def split: option.splits json.splits sum.splits if_splits)

lemma stage_duplicates_world: "snd (stage_duplicates e b h w) = w"
  by (auto simp: stage_duplicates_def split: option.splits)

lemma stage_duplicates_Return:
  "stage_duplicates e b h w = (Return r, w') \<Longrightarrow> statusCode r = 409"
  by (auto simp: stage_duplicates_def split: option.splits if_splits)

lemma stage_legacy_folio_world: "snd (stage_legacy_folio e fa w) = w"
  by (auto simp: stage_legacy_folio_def Let_def
      split: option.splits json.splits sum.splits py_exn.splits prod.splits)

lemma stage_legacy_folio_Return:
  "stage_legacy_folio e fa w = (Return r, w') \<Longrightarrow> statusCode r \<in> {400, 409, 500}"
  by (auto simp: stage_legacy_folio_def Let_def
      split: option.splits json.splits sum.splits py_exn.splits prod.splits if_splits)

lemma stage_legacy_folio_Continue:
  "stage_legacy_folio e fa w = (Continue (f, t), w') \<Longrightarrow>
     t = (if truthy fa then ''mixta'' else ''digital'')"
  by (auto simp: stage_legacy_folio_def Let_def
      split: option.splits json.splits sum.splits py_exn.splits prod.splits if_splits)

lemma encrypt_data_tables:
  "encrypt_data e d w = (res, w') \<Longrightarrow>
     joven w' = joven w \<and> tarjeta w' = tarjeta w \<and> joven_uncommitted w' = joven_uncommitted w
     \<and> tarjeta_uncommitted w' = tarjeta_uncommitted w
     \<and> joven_auto_increment w' = joven_auto_increment w \<and> s3_objects w' = s3_objects w"
  by (auto simp: encrypt_data_def split: json.splits)

lemma stage_encrypt_no_Return: "stage_encrypt e b w \<noteq> (Return r, w')"
  by (auto simp: stage_encrypt_def split: prod.splits sum.splits)

lemma stage_encrypt_tables:
  "stage_encrypt e b w = (out, w') \<Longrightarrow>
     joven w' = joven w \<and> tarjeta w' = tarjeta w \<and> joven_uncommitted w' = joven_uncommitted w
     \<and> tarjeta_uncommitted w' = tarjeta_uncommitted w
     \<and> joven_auto_increment w' = joven_auto_increment w \<and> s3_objects w' = s3_objects w"
  by (auto simp: stage_encrypt_def split: prod.splits sum.splits if_splits dest!: encrypt_data_tables)

lemma upload_photo_tables:
  "upload_photo_to_s3 e p c w = (res, w') \<Longrightarrow>
     joven w' = joven w \<and> tarjeta w' = tarjeta w \<and> joven_uncommitted w' = joven_uncommitted w
     \<and> tarjeta_uncommitted w' = tarjeta_uncommitted w
     \<and> joven_auto_increment w' = joven_auto_increment w \<and> kms_log w' = kms_log w"
  by (auto simp: upload_photo_to_s3_def Let_def split: json.splits option.splits)

lemma upload_photo_None: "upload_photo_to_s3 e p c w = (None, w') \<Longrightarrow> w' = w"
  by (auto simp: upload_photo_to_s3_def Let_def split: json.splits option.splits)

lemma stage_photo_Continue: "\<exists>key w'. stage_photo e b c w = (Continue key, w')"
  by (auto simp: stage_photo_def split: prod.splits option.splits)

lemma stage_photo_tables:
  "stage_photo e b c w = (out, w') \<Longrightarrow>
     joven w' = joven w \<and> tarjeta w' = tarjeta w \<and> joven_uncommitted w' = joven_uncommitted w
     \<and> tarjeta_uncommitted w' = tarjeta_uncommitted w
     \<and> joven_auto_increment w' = joven_auto_increment w \<and> kms_log w' = kms_log w"
  by (auto simp: stage_photo_def split: prod.splits option.splits if_splits dest!: upload_photo_tables)

lemma stage_insert_joven_no_Return: "stage_insert_joven e b hp ch ce te key w \<noteq> (Return r, w')"
  by (auto simp: stage_insert_joven_def Let_def split: option.splits)

lemma stage_tarjeta_no_Return: "stage_tarjeta e uid f t w \<noteq> (Return r, w')"
  by (auto simp: stage_tarjeta_def Let_def split: option.splits sum.splits)

lemma stage_tarjeta_Continue:
  "stage_tarjeta e uid f t w = (Continue r, w') \<Longrightarrow>
     statusCode r = 201 \<and> map_of (payload r) ''tipo'' = Some (JStr t)
     \<and> map_of (payload r) ''folio_legacy'' = Some (JStr f)
     \<and> map_of (payload r) ''id'' = Some (JInt uid)
     \<and> (\<exists>row \<in> set (tarjeta w'). tarjeta_id_usuario row = uid \<and> folio_legacy row = Some f
            \<and> tipo row = t)"
  by (auto simp: stage_tarjeta_def Let_def commit_def split: option.splits sum.splits)

lemma try_block_success_path:
  assumes run: "try_block e ev w = (out, w')"
    and out: "out = Continue r \<or> out = Return r"
    and ok: "statusCode r = 201"
  obtains b hp ct fa f t ce te w4 key w5 uid w6 where
    "stage_request e ev w = (Continue (b, hp, ct, sha256_hexdigest e ct, fa), w)"
    "stage_duplicates e b (sha256_hexdigest e ct) w = (Continue (), w)"
    "stage_legacy_folio e fa w = (Continue (f, t), w)"
    "stage_encrypt e b w = (Continue (ce, te), w4)"
    "stage_photo e b ct w4 = (Continue key, w5)"
    "stage_insert_joven e b hp (sha256_hexdigest e ct) ce te key w5 = (Continue uid, w6)"
    "stage_tarjeta e uid f t w6 = (Continue r, w')"
proof -
  from run[unfolded try_block_def] show ?thesis
  proof (cases rule: bind_cases)
    case (return r1)
    with out ok stage_request_Return[of e ev w r1 w'] show ?thesis by auto
  next
    case (raise err)
    with out show ?thesis by simp
  next
    case c1: (continue x w1)
    obtain b hp ct ch fa where x: "x = (b, hp, ct, ch, fa)" by (cases x)
    from c1(1) x stage_request_Continue[of e ev w b hp ct ch fa w1]
    have req: "w1 = w" "ch = sha256_hexdigest e ct" by auto
    from c1(2)[unfolded x prod.case] show ?thesis
    proof (cases rule: bind_cases)
      case (return r2)
      with out ok stage_duplicates_Return[of e b ch w1 r2 w'] show ?thesis by auto
    next
      case (raise err)
      with out show ?thesis by simp
    next
      case c2: (continue u w2)
      from c2(1) stage_duplicates_world[of e b ch w1] have w2: "w2 = w1" by simp
      from c2(2) show ?thesis
      proof (cases rule: bind_cases)
        case (return r3)
        with out ok stage_legacy_folio_Return[of e fa w2 r3 w'] show ?thesis by auto
      next
        case (raise err)
        with out show ?thesis by simp
      next
        case c3: (continue y w3)
        obtain f t where y: "y = (f, t)" by (cases y)
        from c3(1) stage_legacy_folio_world[of e fa w2] have w3: "w3 = w2" by simp
        from c3(2)[unfolded y prod.case] show ?thesis
        proof (cases rule: bind_cases)
          case (return r4)
          with stage_encrypt_no_Return show ?thesis by blast
        next
          case (raise err)
          with out show ?thesis by simp
        next
          case c4: (continue z w4)
          obtain ce te where z: "z = (ce, te)" by (cases z)
          from c4(2)[unfolded z prod.case] show ?thesis
          proof (cases rule: bind_cases)
            case (return r5)
            with stage_photo_Continue[of e b ct w4] show ?thesis by auto
          next
            case (raise err)
            with out show ?thesis by simp
          next
            case c5: (continue key w5)
            from c5(2) show ?thesis
            proof (cases rule: bind_cases)
              case (return r6)
              with stage_insert_joven_no_Return show ?thesis by blast
            next
              case (raise err)
              with out show ?thesis by simp
            next
              case c6: (continue uid w6)
              from c6(2) out stage_tarjeta_no_Return[of e uid f t w6 r w']
              have last: "stage_tarjeta e uid f t w6 = (Continue r, w')" by auto
              show ?thesis
                using c1(1) c2(1) c3(1) c4(1) c5(1) c6(1) last
                unfolding x y z req w2 w3
                by (auto intro: that)
            qed
          qed
        qed
      qed
    qed
  qed
qed

lemma try_block_201:
  assumes run: "try_block e ev w = (out, w')"
    and out: "out = Continue r \<or> out = Return r"
    and ok: "statusCode r = 201"
  shows "\<exists>b. body ev = Some b
           \<and> map_of (payload r) ''tipo'' =
               Some (JStr (if truthy (dict_get b ''folio_antiguo'') then ''mixta'' else ''digital''))"
proof -
  from assms obtain b hp ct fa f t ce te w4 key w5 uid w6 where
    s1: "stage_request e ev w = (Continue (b, hp, ct, sha256_hexdigest e ct, fa), w)"
    and s3: "stage_legacy_folio e fa w = (Continue (f, t), w)"
    and s7: "stage_tarjeta e uid f t w6 = (Continue r, w')"
    by (rule try_block_success_path)
  from stage_request_Continue[OF s1] stage_legacy_folio_Continue[OF s3] stage_tarjeta_Continue[OF s7]
  show ?thesis by auto
qed

lemma lambda_handler_cases:
  assumes "lambda_handler e ev w = (r, w')"
  obtains (options) "httpMethod ev = Some ''OPTIONS''" "r = reply 200 ''OK''" "w' = w"
  | (finished) out where "httpMethod ev \<noteq> Some ''OPTIONS''" "try_block e ev w = (out, w')"
      "out = Continue r \<or> out = Return r"
  | (mysql) code where "httpMethod ev \<noteq> Some ''OPTIONS''"
      "try_block e ev w = (Raise (MySQLError code), w')"
      "r = (if code = 1062 then reply 409 msg_correo_o_curp else reply 500 ''Error de base de datos'')"
  | (exn) err where "httpMethod ev \<noteq> Some ''OPTIONS''" "try_block e ev w = (Raise err, w')"
      "r = \<lparr>statusCode = 500, message = ''Error interno del servidor'', payload = [],
            error = Some err\<rparr>"
  using assms
  by (auto simp: lambda_handler_def split: if_splits prod.splits outcome.splits py_exn.splits)

text \<open>
  C2. Every successful registration (status 201) returns, under the key \<^verbatim>\<open>tipo\<close>, the
  string \<^verbatim>\<open>mixta\<close> when the request carried a non-empty \<^verbatim>\<open>folio_antiguo\<close> and the
  string \<^verbatim>\<open>digital\<close> when it carried none; no other value is returned.
\<close>

theorem registration_card_type:
  assumes "lambda_handler e ev w = (r, w')" and "statusCode r = 201"
  shows "\<exists>b. body ev = Some b
           \<and> map_of (payload r) ''tipo'' =
               Some (JStr (if truthy (dict_get b ''folio_antiguo'') then ''mixta'' else ''digital''))"
  using assms(1)
proof (cases rule: lambda_handler_cases)
  case options
  with assms(2) show ?thesis by simp
next
  case (finished out)
  from try_block_201[OF finished(2) finished(3) assms(2)] show ?thesis .
next
  case (mysql code)
  with assms(2) show ?thesis by (simp split: if_splits)
next
  case (exn err)
  with assms(2) show ?thesis by simp
qed

lemma stage_duplicates_registered:
  assumes "(\<exists>r \<in> set (visible_joven w). sql_eq (correo r) (dict_get b ''correo''))
           \<or> (\<exists>r \<in> set (visible_joven w). curp_hash r = h)"
  shows "\<exists>out. stage_duplicates e b h w = (out, w) \<and> (\<forall>x. out \<noteq> Continue x)"
  using assms by (auto simp: stage_duplicates_def split: option.splits)

lemma try_block_registered:
  assumes b: "body ev = Some b"
    and dup: "email_registered w b \<or> curp_registered e w b"
  shows "\<exists>out. try_block e ev w = (out, w) \<and> (\<forall>r. out \<noteq> Continue r)"
proof -
  obtain o1 w1 where s1: "stage_request e ev w = (o1, w1)" by (cases "stage_request e ev w")
  with stage_request_world[of e ev w] have w1: "w1 = w" by simp
  show ?thesis
  proof (cases o1)
    case (Return r)
    with s1 w1 show ?thesis by (simp add: try_block_def bind_simps)
  next
    case (Raise err)
    with s1 w1 show ?thesis by (simp add: try_block_def bind_simps)
  next
    case (Continue x)
    obtain b' hp ct ch fa where x: "x = (b', hp, ct, ch, fa)" by (cases x)
    from s1 Continue x stage_request_Continue[of e ev w b' hp ct ch fa w1] b
    have eqs: "b' = b" "dict_get b ''curp'' = JStr ct" "ch = sha256_hexdigest e ct" by auto
    from dup eqs have "(\<exists>r \<in> set (visible_joven w). sql_eq (correo r) (dict_get b ''correo''))
           \<or> (\<exists>r \<in> set (visible_joven w). curp_hash r = ch)"
      by (auto simp: email_registered_def curp_registered_def)
    from stage_duplicates_registered[OF this, of e]
    obtain out where d: "stage_duplicates e b ch w = (out, w)" and nc: "\<forall>x. out \<noteq> Continue x"
      by blast
    from nc d s1 Continue x w1 eqs show ?thesis
      by (cases out) (simp_all add: try_block_def bind_simps)
  qed
qed

lemma lambda_handler_registered_world:
  assumes "body ev = Some b" and "email_registered w b \<or> curp_registered e w b"
  shows "snd (lambda_handler e ev w) = w"
proof -
  from try_block_registered[OF assms] obtain out where
    t: "try_block e ev w = (out, w)" by blast
  show ?thesis
    by (simp add: lambda_handler_def t split: outcome.splits py_exn.splits)
qed

lemma stage_request_reaches:
  assumes "reaches_duplicate_checks e ev" and "body ev = Some b"
  shows "\<exists>hp ct. stage_request e ev w =
           (Continue (b, hp, ct, sha256_hexdigest e ct, dict_get b ''folio_antiguo''), w)
         \<and> dict_get b ''curp'' = JStr ct"
proof -
  from assms have req: "filter (\<lambda>field. map_of b field = None) required_fields = []"
    by (auto simp: reaches_duplicate_checks_def filter_empty_conv list_all_iff)
  from assms show ?thesis
    by (auto simp: reaches_duplicate_checks_def stage_request_def req
        split: json.splits sum.splits)
qed

lemma lambda_handler_registered_response:
  assumes r: "reaches_duplicate_checks e ev" and b: "body ev = Some b"
  shows "email_registered w b \<Longrightarrow> fst (lambda_handler e ev w) = reply 409 msg_correo_registrado"
    and "\<not> email_registered w b \<Longrightarrow> db_error e SelectCurpHash = None \<Longrightarrow> curp_registered e w b
         \<Longrightarrow> fst (lambda_handler e ev w) = reply 409 msg_curp_registrado"
proof -
  from stage_request_reaches[OF r b, of w] obtain hp ct where
    s1: "stage_request e ev w =
           (Continue (b, hp, ct, sha256_hexdigest e ct, dict_get b ''folio_antiguo''), w)"
    and c: "dict_get b ''curp'' = JStr ct" by blast
  from r have m: "httpMethod ev \<noteq> Some ''OPTIONS''" and conn: "connect_error e = None"
    and sel: "db_error e SelectCorreo = None"
    by (simp_all add: reaches_duplicate_checks_def)
  { assume "email_registered w b"
    then have "stage_duplicates e b (sha256_hexdigest e ct) w = (Return (reply 409 msg_correo_registrado), w)"
      by (simp add: stage_duplicates_def conn sel email_registered_def)
    then show "fst (lambda_handler e ev w) = reply 409 msg_correo_registrado"
      by (simp add: lambda_handler_def m try_block_def s1 bind_simps) }
  { assume "\<not> email_registered w b" "db_error e SelectCurpHash = None" "curp_registered e w b"
    then have "stage_duplicates e b (sha256_hexdigest e ct) w = (Return (reply 409 msg_curp_registrado), w)"
      by (simp add: stage_duplicates_def conn sel email_registered_def curp_registered_def c)
    then show "fst (lambda_handler e ev w) = reply 409 msg_curp_registrado"
      by (simp add: lambda_handler_def m try_block_def s1 bind_simps) }
qed

text \<open>
  C8. A request whose email matches an existing beneficiary, or whose CURP hash does,
  leaves the world as it was: no row is written, nothing is sent to the encryption
  service, nothing is uploaded. When the request reaches the duplicate checks, the
  answer is the 409 of the duplicate email; with no email match and the CURP query
  answered, it is the 409 of the duplicate CURP.
\<close>

theorem duplicates_rejected_before_encryption_and_writes:
  assumes "body ev = Some b" and "email_registered w b \<or> curp_registered e w b"
  shows "snd (lambda_handler e ev w) = w
       \<and> (reaches_duplicate_checks e ev \<and> email_registered w b
            \<longrightarrow> fst (lambda_handler e ev w) = reply 409 msg_correo_registrado)
       \<and> (reaches_duplicate_checks e ev \<and> \<not> email_registered w b
            \<and> db_error e SelectCurpHash = None \<and> curp_registered e w b
            \<longrightarrow> fst (lambda_handler e ev w) = reply 409 msg_curp_registrado)"
  using lambda_handler_registered_world[OF assms]
    lambda_handler_registered_response[OF _ assms(1)]
  by blast

lemma map_of_remove_key:
  "map_of (remove_key k b) k' = (if k' = k then None else map_of b k')"
  by (induction b) (auto simp: remove_key_def)

lemma dict_get_remove_key: "k' \<noteq> k \<Longrightarrow> dict_get (remove_key k b) k' = dict_get b k'"
  by (simp add: dict_get_def map_of_remove_key)

lemma dict_get_removed: "dict_get (remove_key k b) k = JNull"
  by (simp add: dict_get_def map_of_remove_key)

lemma upload_fails_None:
  "upload_fails e p c \<Longrightarrow> upload_photo_to_s3 e p c w = (None, w)"
  by (auto simp: upload_fails_def upload_photo_to_s3_def Let_def split: json.splits option.splits)

lemma stage_photo_upload_fails:
  "upload_fails e (dict_get b ''foto'') c \<Longrightarrow> stage_photo e b c w = (Continue ''default-avatar.JPG'', w)"
  by (simp add: stage_photo_def upload_fails_None)

lemma stage_photo_no_photo:
  "stage_photo e (remove_key ''foto'' b) c w = (Continue ''default-avatar.JPG'', w)"
  by (simp add: stage_photo_def dict_get_removed)

lemma missing_remove_foto:
  "filter (\<lambda>field. map_of (remove_key ''foto'' b) field = None) required_fields
     = filter (\<lambda>field. map_of b field = None) required_fields"
  by (simp add: required_fields_def map_of_remove_key)

lemma stage_request_remove_foto:
  "stage_request e (ev\<lparr>body := Some (remove_key ''foto'' b)\<rparr>) w =
     (case stage_request e (ev\<lparr>body := Some b\<rparr>) w of
        (Continue (b0, rest), w1) \<Rightarrow> (Continue (remove_key ''foto'' b, rest), w1)
      | other \<Rightarrow> other)"
  by (simp add: stage_request_def missing_remove_foto dict_get_remove_key Let_def
      split: json.splits sum.splits)

lemma stage_duplicates_remove_foto:
  "stage_duplicates e (remove_key ''foto'' b) h w = stage_duplicates e b h w"
proof -
  have "dict_get (remove_key ''foto'' b) ''correo'' = dict_get b ''correo''"
    by (simp add: dict_get_remove_key)
  then show ?thesis
    unfolding stage_duplicates_def by (simp only:)
qed

lemma stage_encrypt_remove_foto:
  "stage_encrypt e (remove_key ''foto'' b) w = stage_encrypt e b w"
  by (simp add: stage_encrypt_def dict_get_remove_key
      cong: if_cong prod.case_cong sum.case_cong)

lemma stage_insert_joven_remove_foto:
  "stage_insert_joven e (remove_key ''foto'' b) hp ch ce te key w
     = stage_insert_joven e b hp ch ce te key w"
  by (simp add: stage_insert_joven_def direccion_of_def dict_get_remove_key map_of_remove_key
      cong: option.case_cong)

lemma try_block_remove_foto:
  assumes b: "body ev = Some b"
    and up: "\<forall>c. dict_get b ''curp'' = JStr c \<longrightarrow> upload_fails e (dict_get b ''foto'') c"
  shows "try_block e (ev\<lparr>body := Some (remove_key ''foto'' b)\<rparr>) w = try_block e ev w"
proof -
  from b have ev: "ev\<lparr>body := Some b\<rparr> = ev" by simp
  obtain o1 w1 where s1: "stage_request e ev w = (o1, w1)" by (cases "stage_request e ev w")
  show ?thesis
  proof (cases o1)
    case (Return r)
    with s1 show ?thesis
      by (simp add: try_block_def stage_request_remove_foto ev bind_simps)
  next
    case (Raise err)
    with s1 show ?thesis
      by (simp add: try_block_def stage_request_remove_foto ev bind_simps)
  next
    case (Continue x)
    obtain b0 hp ct ch fa where x: "x = (b0, hp, ct, ch, fa)" by (cases x)
    from s1 Continue x stage_request_Continue[of e ev w b0 hp ct ch fa w1] b
    have eqs: "b0 = b" "dict_get b ''curp'' = JStr ct" by auto
    with up have "upload_fails e (dict_get b ''foto'') ct" by blast
    then have ph: "\<And>w. stage_photo e b ct w = (Continue ''default-avatar.JPG'', w)"
      by (rule stage_photo_upload_fails)
    from s1 Continue x eqs show ?thesis
      by (simp add: try_block_def stage_request_remove_foto ev bind_simps
            stage_duplicates_remove_foto stage_encrypt_remove_foto
            stage_insert_joven_remove_foto stage_photo_no_photo ph)
  qed
qed

lemma stage_insert_joven_row:
  "stage_insert_joven e b hp ch ce te key w = (Continue uid, w') \<Longrightarrow>
     uid = joven_auto_increment w
     \<and> (\<exists>row \<in> set (joven w'). id_usuario row = uid \<and> foto row = key)"
  by (auto simp: stage_insert_joven_def Let_def commit_def split: option.splits)

lemma stage_tarjeta_joven:
  "stage_tarjeta e uid f t w = (out, w') \<Longrightarrow> set (joven w) \<subseteq> set (joven w')"
  by (auto simp: stage_tarjeta_def Let_def commit_def split: option.splits sum.splits)

lemma success_default_avatar:
  assumes run: "lambda_handler e ev w = (r, w')" and ok: "statusCode r = 201"
    and b: "body ev = Some b"
    and up: "\<forall>c. dict_get b ''curp'' = JStr c \<longrightarrow> upload_fails e (dict_get b ''foto'') c"
  shows "\<exists>row \<in> set (joven w'). id_usuario row = joven_auto_increment w
           \<and> foto row = ''default-avatar.JPG''"
  using run
proof (cases rule: lambda_handler_cases)
  case options
  with ok show ?thesis by simp
next
  case (mysql code)
  with ok show ?thesis by (simp split: if_splits)
next
  case (exn err)
  with ok show ?thesis by simp
next
  case (finished out)
  from finished(2,3) ok obtain b0 hp ct fa f t ce te w4 key w5 uid w6 where
    s1: "stage_request e ev w = (Continue (b0, hp, ct, sha256_hexdigest e ct, fa), w)"
    and s4: "stage_encrypt e b0 w = (Continue (ce, te), w4)"
    and s5: "stage_photo e b0 ct w4 = (Continue key, w5)"
    and s6: "stage_insert_joven e b0 hp (sha256_hexdigest e ct) ce te key w5 = (Continue uid, w6)"
    and s7: "stage_tarjeta e uid f t w6 = (Continue r, w')"
    by (rule try_block_success_path)
  from stage_request_Continue[OF s1] b have eqs: "b0 = b" "dict_get b ''curp'' = JStr ct" by auto
  with up have "upload_fails e (dict_get b ''foto'') ct" by blast
  from stage_photo_upload_fails[OF this, of w4] s5 eqs
  have key: "key = ''default-avatar.JPG''" "w5 = w4" by simp_all
  from stage_encrypt_tables[OF s4] have "joven_auto_increment w4 = joven_auto_increment w" by simp
  with stage_insert_joven_row[OF s6] stage_tarjeta_joven[OF s7] key show ?thesis by auto
qed

text \<open>
  C10. A photo upload that fails does not abort the registration.
  \<^verbatim>\<open>upload_photo_to_s3\<close> returns None, with nothing uploaded, whenever something raises
  inside it; the handler then behaves exactly as for the same request without a photo,
  and a registration that succeeds has stored the beneficiary with the photo key
  \<^verbatim>\<open>default-avatar.JPG\<close>.
\<close>

theorem photo_upload_failure_does_not_abort:
  assumes "body ev = Some b"
    and "\<forall>c. dict_get b ''curp'' = JStr c \<longrightarrow> upload_fails e (dict_get b ''foto'') c"
  shows "(\<forall>c w0. upload_fails e (dict_get b ''foto'') c
            \<longrightarrow> upload_photo_to_s3 e (dict_get b ''foto'') c w0 = (None, w0))
       \<and> lambda_handler e ev w = lambda_handler e (ev\<lparr>body := Some (remove_key ''foto'' b)\<rparr>) w
       \<and> (statusCode (fst (lambda_handler e ev w)) = 201
            \<longrightarrow> (\<exists>row \<in> set (joven (snd (lambda_handler e ev w))).
                    id_usuario row = joven_auto_increment w
                    \<and> foto row = ''default-avatar.JPG''))"
proof (intro conjI allI impI)
  fix c w0
  assume "upload_fails e (dict_get b ''foto'') c"
  then show "upload_photo_to_s3 e (dict_get b ''foto'') c w0 = (None, w0)"
    by (rule upload_fails_None)
next
  show "lambda_handler e ev w = lambda_handler e (ev\<lparr>body := Some (remove_key ''foto'' b)\<rparr>) w"
    by (simp add: lambda_handler_def try_block_remove_foto[OF assms])
next
  assume "statusCode (fst (lambda_handler e ev w)) = 201"
  with success_default_avatar[OF _ _ assms, of w "fst (lambda_handler e ev w)" "snd (lambda_handler e ev w)"]
  show "\<exists>row \<in> set (joven (snd (lambda_handler e ev w))).
                    id_usuario row = joven_auto_increment w
                    \<and> foto row = ''default-avatar.JPG''"
    by simp
qed

lemma luhn_BJ202611000001: "calculate_luhn ''BJ202611000001'' = Inr 8"
  by (simp add: calculate_luhn_char is_superscript_digit_def decimal_values_def is_decimal_iff
          digit_val_def spec_check_digit_def spec_luhn_term_def lessThan_nat_numeral
          lessThan_Suc)

lemma folio_2026_11_1: "generate_new_folio (2026, 11) 1 = Inr ''BJ-2026-11-000001-8''"
proof -
  have ev: "str_int 2026 = ''2026''" "zfill 2 (str_int 11) = ''11''"
    "zfill 6 (str_int 1) = ''000001''" "str_int 8 = ''8''"
    by (simp_all add: str_eval)
  show ?thesis
    by (simp add: generate_new_folio_def ev luhn_BJ202611000001)
qed

lemma request_demo:
  "stage_request (scenario_env dbe s3e) (post demo_body) w =
     (Continue (demo_body, ''$2b$12$secreto'', ''PAAA000101MDFZNN01'',
                ''sha256:PAAA000101MDFZNN01'', JNull), w)"
  by (simp add: stage_request_def scenario_env_def post_def demo_body_def required_fields_def
        dict_get_def)

lemma request_with_folio:
  "stage_request (scenario_env dbe s3e) (post body_with_folio) w =
     (Continue (body_with_folio, ''$2b$12$secreto'', ''PAAA000101MDFZNN01'',
                ''sha256:PAAA000101MDFZNN01'', JStr ''1234-5678-9012-0005''), w)"
  by (simp add: stage_request_def scenario_env_def post_def demo_body_def body_with_folio_def
        required_fields_def dict_get_def)

lemma duplicates_empty:
  "dbe SelectCorreo = None \<Longrightarrow> dbe SelectCurpHash = None \<Longrightarrow>
     stage_duplicates (scenario_env dbe s3e) b h empty_world = (Continue (), empty_world)"
  by (simp add: stage_duplicates_def scenario_env_def empty_world_def visible_joven_def)

lemma legacy_allocated_empty:
  "dbe SelectMaxFolioLegacy = None \<Longrightarrow>
     stage_legacy_folio (scenario_env dbe s3e) JNull empty_world =
       (Continue (''1234567890120001'', ''digital''), empty_world)"
  by (simp add: stage_legacy_folio_def get_next_legacy_folio_def scenario_env_def empty_world_def
        visible_tarjeta_def select_max_folio_legacy_def legacy_candidates_def)

lemma supplied_folio_valid:
  "validate_legacy_folio ''1234-5678-9012-0005'' = Inr (True, msg_valido)"
  by (simp add: validate_accepts_iff normalize_folio_def remove_char_def is_decimal_iff
        LEGACY_PREFIX_def spec_tail_value_def last_four_def digit_val_def)

lemma legacy_supplied_empty:
  "dbe SelectFolioLegacy = None \<Longrightarrow>
     stage_legacy_folio (scenario_env dbe s3e) (JStr ''1234-5678-9012-0005'') empty_world =
       (Continue (''1234567890120005'', ''mixta''), empty_world)"
  by (simp add: stage_legacy_folio_def supplied_folio_valid scenario_env_def empty_world_def
        visible_tarjeta_def normalize_folio_def remove_char_def)

lemma encrypt_demo:
  "dict_get b ''curp'' = JStr ''PAAA000101MDFZNN01'' \<Longrightarrow> dict_get b ''celular'' = JNull \<Longrightarrow>
   stage_encrypt (scenario_env dbe s3e) b w =
     (Continue (''kms:PAAA000101MDFZNN01'', None),
      w\<lparr>kms_log := kms_log w @ [''PAAA000101MDFZNN01'']\<rparr>)"
  by (simp add: stage_encrypt_def encrypt_data_def scenario_env_def)

lemma photo_absent:
  "dict_get b ''foto'' = JNull \<Longrightarrow>
     stage_photo e b c w = (Continue ''default-avatar.JPG'', w)"
  by (simp add: stage_photo_def)

lemma demo_body_gets:
  "dict_get demo_body ''curp'' = JStr ''PAAA000101MDFZNN01''"
  "dict_get demo_body ''celular'' = JNull" "dict_get demo_body ''foto'' = JNull"
  "dict_get body_with_folio ''curp'' = JStr ''PAAA000101MDFZNN01''"
  "dict_get body_with_folio ''celular'' = JNull" "dict_get body_with_folio ''foto'' = JNull"
  by (simp_all add: dict_get_def demo_body_def body_with_folio_def)

lemma insert_joven_demo:
  assumes "dbe InsertJoven = None" and "dbe CommitJoven = None"
    and "b = demo_body \<or> b = body_with_folio"
  shows "stage_insert_joven (scenario_env dbe s3e) b ''$2b$12$secreto''
           ''sha256:PAAA000101MDFZNN01'' ''kms:PAAA000101MDFZNN01'' None ''default-avatar.JPG''
           (empty_world\<lparr>kms_log := kms_log empty_world @ [''PAAA000101MDFZNN01'']\<rparr>)
         = (Continue 1, ana_registered)"
  using assms
  by (auto simp: stage_insert_joven_def direccion_of_def scenario_env_def empty_world_def
        demo_body_def body_with_folio_def dict_get_def commit_def ana_registered_def
        world_with_ana_def ana_row_def)

lemma tarjeta_demo:
  "stage_tarjeta (scenario_env dbe s3e) 1 f t ana_registered =
     (case dbe InsertTarjeta of
        Some code \<Rightarrow> (Raise (MySQLError code), ana_registered)
      | None \<Rightarrow>
          (case dbe CommitTarjeta of
             Some code \<Rightarrow>
               (Raise (MySQLError code),
                ana_registered\<lparr>tarjeta_uncommitted :=
                   [\<lparr>tarjeta_id_usuario = 1, folio = ''BJ-2026-11-000001-8'',
                     folio_legacy = Some f, tipo = t, estado = ''activa''\<rparr>]\<rparr>)
           | None \<Rightarrow>
               (Continue \<lparr>statusCode = 201, message = msg_registrado_con_exito,
                          payload = [(''id'', JInt 1),
                                     (''folio_digital'', JStr ''BJ-2026-11-000001-8''),
                                     (''folio_legacy'', JStr f), (''tipo'', JStr t)],
                          error = None\<rparr>,
                ana_registered\<lparr>tarjeta :=
                   [\<lparr>tarjeta_id_usuario = 1, folio = ''BJ-2026-11-000001-8'',
                     folio_legacy = Some f, tipo = t, estado = ''activa''\<rparr>]\<rparr>)))"
  by (simp add: stage_tarjeta_def scenario_env_def folio_2026_11_1 commit_def ana_registered_def
        world_with_ana_def empty_world_def split: option.splits)

lemma try_block_demo:
  assumes "dbe SelectCorreo = None" "dbe SelectCurpHash = None" "dbe SelectMaxFolioLegacy = None"
    "dbe InsertJoven = None" "dbe CommitJoven = None"
  shows "try_block (scenario_env dbe s3e) (post demo_body) empty_world =
           stage_tarjeta (scenario_env dbe s3e) 1 ''1234567890120001'' ''digital'' ana_registered"
  using assms
  by (simp add: try_block_def bind_simps request_demo duplicates_empty
        legacy_allocated_empty encrypt_demo demo_body_gets photo_absent
        insert_joven_demo)

lemma try_block_with_folio:
  assumes "dbe SelectCorreo = None" "dbe SelectCurpHash = None" "dbe SelectFolioLegacy = None"
    "dbe InsertJoven = None" "dbe CommitJoven = None"
  shows "try_block (scenario_env dbe s3e) (post body_with_folio) empty_world =
           stage_tarjeta (scenario_env dbe s3e) 1 ''1234567890120005'' ''mixta'' ana_registered"
  using assms
  by (simp add: try_block_def bind_simps request_with_folio duplicates_empty
        legacy_supplied_empty encrypt_demo demo_body_gets photo_absent
        insert_joven_demo)

lemma post_not_options: "httpMethod (post b) \<noteq> Some ''OPTIONS''" "body (post b) = Some b"
  by (simp_all add: post_def)

lemma handler_demo:
  "lambda_handler (scenario_env no_errors s3e) (post demo_body) empty_world =
     (\<lparr>statusCode = 201, message = msg_registrado_con_exito,
       payload = [(''id'', JInt 1), (''folio_digital'', JStr ''BJ-2026-11-000001-8''),
                  (''folio_legacy'', JStr ''1234567890120001''), (''tipo'', JStr ''digital'')],
       error = None\<rparr>,
      ana_registered\<lparr>tarjeta :=
         [\<lparr>tarjeta_id_usuario = 1, folio = ''BJ-2026-11-000001-8'',
           folio_legacy = Some ''1234567890120001'', tipo = ''digital'',
           estado = ''activa''\<rparr>]\<rparr>)"
  by (simp add: lambda_handler_def post_not_options try_block_demo tarjeta_demo no_errors_def)

lemma handler_with_folio:
  "lambda_handler (scenario_env no_errors s3e) (post body_with_folio) empty_world =
     (\<lparr>statusCode = 201, message = msg_registrado_con_exito,
       payload = [(''id'', JInt 1), (''folio_digital'', JStr ''BJ-2026-11-000001-8''),
                  (''folio_legacy'', JStr ''1234567890120005''), (''tipo'', JStr ''mixta'')],
       error = None\<rparr>,
      ana_registered\<lparr>tarjeta :=
         [\<lparr>tarjeta_id_usuario = 1, folio = ''BJ-2026-11-000001-8'',
           folio_legacy = Some ''1234567890120005'', tipo = ''mixta'',
           estado = ''activa''\<rparr>]\<rparr>)"
  by (simp add: lambda_handler_def post_not_options try_block_with_folio tarjeta_demo no_errors_def)

text \<open>
  C1. Registration is claimed atomic: after a failed registration no beneficiary row and
  no card row of the request is observable. The handler commits the beneficiary row
  before it inserts the card row and never rolls back: on an empty store, when the
  INSERT into Tarjeta raises, the answer is the 500 of a store error and the committed
  rows of Joven hold the new beneficiary, with no card.
\<close>

theorem card_insert_failure_leaves_beneficiary:
  "lambda_handler (scenario_env card_insert_fails no_errors) (post demo_body) empty_world
     = (reply 500 ''Error de base de datos'', ana_registered)
   \<and> joven empty_world = [] \<and> joven ana_registered = [ana_row] \<and> tarjeta ana_registered = []"
proof -
  have "try_block (scenario_env card_insert_fails no_errors) (post demo_body) empty_world
          = (Raise (MySQLError 1205), ana_registered)"
    by (simp add: try_block_demo tarjeta_demo card_insert_fails_def)
  then have "lambda_handler (scenario_env card_insert_fails no_errors) (post demo_body) empty_world
     = (reply 500 ''Error de base de datos'', ana_registered)"
    by (simp add: lambda_handler_def post_not_options)
  then show ?thesis
    by (simp add: ana_registered_def world_with_ana_def empty_world_def)
qed

theorem registration_card_type_witness:
  "map_of (payload (fst (lambda_handler demo_env (post body_with_folio) empty_world))) ''tipo''
     = Some (JStr ''mixta'')
   \<and> map_of (payload (fst (lambda_handler demo_env (post demo_body) empty_world))) ''tipo''
     = Some (JStr ''digital'')"
proof -
  let ?r1 = "fst (lambda_handler demo_env (post body_with_folio) empty_world)"
  let ?r2 = "fst (lambda_handler demo_env (post demo_body) empty_world)"
  have ok1: "statusCode ?r1 = 201" by (simp add: demo_env_def handler_with_folio)
  have ok2: "statusCode ?r2 = 201" by (simp add: demo_env_def handler_demo)
  from registration_card_type[OF surjective_pairing ok1]
  have "map_of (payload ?r1) ''tipo'' =
          Some (JStr (if truthy (dict_get body_with_folio ''folio_antiguo'') then ''mixta'' else ''digital''))"
    by (simp add: post_not_options)
  moreover from registration_card_type[OF surjective_pairing ok2]
  have "map_of (payload ?r2) ''tipo'' =
          Some (JStr (if truthy (dict_get demo_body ''folio_antiguo'') then ''mixta'' else ''digital''))"
    by (simp add: post_not_options)
  ultimately show ?thesis
    by (simp add: dict_get_def body_with_folio_def demo_body_def)
qed

text \<open>
  A registration with the unused legacy folio \<^verbatim>\<open>1234-5678-9012-0005\<close> succeeds and the
  card type it returns is the string \<^verbatim>\<open>mixta\<close>, not \<^verbatim>\<open>mixed\<close>.
\<close>

theorem supplied_folio_card_type_counterexample:
  "statusCode (fst (lambda_handler demo_env (post body_with_folio) empty_world)) = 201
   \<and> map_of (payload (fst (lambda_handler demo_env (post body_with_folio) empty_world))) ''tipo''
       = Some (JStr ''mixta'')
   \<and> JStr ''mixta'' \<noteq> JStr ''mixed''"
  by (simp add: demo_env_def handler_with_folio)

theorem duplicates_rejected_witness:
  "lambda_handler demo_env (post demo_body) world_with_ana
     = (reply 409 msg_correo_registrado, world_with_ana)
   \<and> lambda_handler demo_env (post body_other_email) world_with_ana
     = (reply 409 msg_curp_registrado, world_with_ana)"
proof -
  have e1: "email_registered world_with_ana demo_body"
    by (simp add: email_registered_def world_with_ana_def empty_world_def visible_joven_def
          ana_row_def sql_eq_def dict_get_def demo_body_def)
  have r1: "reaches_duplicate_checks demo_env (post demo_body)"
    by (simp add: reaches_duplicate_checks_def demo_env_def scenario_env_def no_errors_def
          post_def demo_body_def required_fields_def dict_get_def)
  from duplicates_rejected_before_encryption_and_writes[OF post_not_options(2), of world_with_ana demo_body demo_env]
    e1 r1
  have a: "lambda_handler demo_env (post demo_body) world_with_ana
     = (reply 409 msg_correo_registrado, world_with_ana)"
    by (simp add: prod_eq_iff)
  have e2: "\<not> email_registered world_with_ana body_other_email"
    by (simp add: email_registered_def world_with_ana_def empty_world_def visible_joven_def
          ana_row_def sql_eq_def dict_get_def demo_body_def body_other_email_def)
  have c2: "curp_registered demo_env world_with_ana body_other_email"
    by (simp add: curp_registered_def world_with_ana_def empty_world_def visible_joven_def
          ana_row_def dict_get_def demo_body_def body_other_email_def demo_env_def
          scenario_env_def)
  have r2: "reaches_duplicate_checks demo_env (post body_other_email)"
    by (simp add: reaches_duplicate_checks_def demo_env_def scenario_env_def no_errors_def
          post_def demo_body_def body_other_email_def required_fields_def dict_get_def)
  have s2: "db_error demo_env SelectCurpHash = None"
    by (simp add: demo_env_def scenario_env_def no_errors_def)
  from duplicates_rejected_before_encryption_and_writes[OF post_not_options(2), of world_with_ana body_other_email demo_env]
    e2 c2 r2 s2
  have b: "lambda_handler demo_env (post body_other_email) world_with_ana
     = (reply 409 msg_curp_registrado, world_with_ana)"
    by (simp add: prod_eq_iff)
  from a b show ?thesis by simp
qed

theorem photo_upload_failure_witness:
  "lambda_handler (scenario_env no_errors s3_down) (post body_with_photo) empty_world
     = lambda_handler (scenario_env no_errors s3_down) (post demo_body) empty_world
   \<and> statusCode (fst (lambda_handler (scenario_env no_errors s3_down) (post body_with_photo)
                        empty_world)) = 201
   \<and> map foto (joven (snd (lambda_handler (scenario_env no_errors s3_down) (post body_with_photo)
                             empty_world))) = [''default-avatar.JPG'']"
proof -
  let ?e = "scenario_env no_errors s3_down"
  have up: "\<forall>c. dict_get body_with_photo ''curp'' = JStr c
              \<longrightarrow> upload_fails ?e (dict_get body_with_photo ''foto'') c"
    by (simp add: upload_fails_def dict_get_def body_with_photo_def scenario_env_def s3_down_def)
  have ev: "(post body_with_photo)\<lparr>body := Some (remove_key ''foto'' body_with_photo)\<rparr>
              = post demo_body"
    by (simp add: post_def remove_key_def body_with_photo_def demo_body_def)
  from photo_upload_failure_does_not_abort[OF post_not_options(2) up, of empty_world]
  have eq: "lambda_handler ?e (post body_with_photo) empty_world
              = lambda_handler ?e (post demo_body) empty_world"
    by (simp only: ev)
  show ?thesis
    unfolding eq handler_demo
    by (simp add: ana_registered_def world_with_ana_def empty_world_def ana_row_def)
qed

end
